theory Spec2Isabelle
  imports Complex_Main "HOL-Library.Char_ord" "HOL-Library.List_Lexorder" "HOL-Library.Log_Nat"
begin

section \<open>Data model\<close>

text \<open>
  The engine is TypeScript, and its numbers are IEEE 754 doubles. They are modelled as
  \<^typ>\<open>real\<close>. Where a \<open>Math.floor\<close>, a \<open>Math.ceil\<close> or a comparison with a threshold
  reads a computed value in the two trading tools (the close quantity of
  closePositionTool; the drawdown, the exposure and the quantity of openPositionTool) and
  in the drawdown paragraph of the prompt, every arithmetic operation of the source is
  followed by \<open>binary64\<close>, the rounding to double precision; the arguments are the doubles
  the source holds, so that a decimal literal d of the source is \<open>binary64 d\<close>. The PnL,
  fee and percentage arithmetic of the ledger and of the forced risk check is exact. NaN
  and the infinities appear only where the open tool divides by zero, as outcomes of
  their own. \<open>Math.floor\<close> is \<^term>\<open>floor\<close> read back as a real.
\<close>

datatype side = Long | Short

fun oppositeSide :: "side \<Rightarrow> side" where
  "oppositeSide Long = Short"
| "oppositeSide Short = Long"

definition jsFloor :: "real \<Rightarrow> real" where
  "jsFloor x = real_of_int \<lfloor>x\<rfloor>"

definition jsCeil :: "real \<Rightarrow> real" where
  "jsCeil x = real_of_int \<lceil>x\<rceil>"

text \<open>
  Rounding to double precision: round to nearest, ties to even, with 53 significant bits.
  For a value x other than 0, with 2^e \<open>\<le>\<close> |x| < 2^(e+1), the doubles around x are the
  multiples of u = 2^(e-52), and x is rounded to the nearest multiple, to the even one
  when it lies halfway. The exponent e is read off the bit length of the integer part of
  |x| when |x| is at least 1, and of the integer below the ceiling of 1 / |x| otherwise.
  The exponent is not bounded: overflow to an infinity (from 2^1024 on) and the coarser
  grid of the subnormal numbers (below 2^-1022) are not represented.
\<close>

definition roundTiesToEven :: "real \<Rightarrow> int" where
  "roundTiesToEven r =
     (let f = \<lfloor>r\<rfloor>
      in if r - real_of_int f < 1 / 2 then f
         else if r - real_of_int f > 1 / 2 then f + 1
         else if even f then f else f + 1)"

definition binaryExponent :: "real \<Rightarrow> int" where
  "binaryExponent x =
     (if 1 \<le> x then bitlen \<lfloor>x\<rfloor> - 1 else - bitlen (\<lceil>1 / x\<rceil> - 1))"

definition pow2 :: "int \<Rightarrow> real" where
  "pow2 k = (if 0 \<le> k then 2 ^ nat k else 1 / 2 ^ nat (- k))"

definition binary64 :: "real \<Rightarrow> real" where
  "binary64 x =
     (if x = 0 then 0
      else (let e = binaryExponent \<bar>x\<bar>;
                u = pow2 (e - 52)
            in real_of_int (roundTiesToEven (x / u)) * u))"

text \<open>The normalised exchange position (what \<open>client.getPositions()\<close> returns).\<close>

record position =
  pos_symbol :: string
  pos_exchangeSymbol :: string
  pos_side :: side
  pos_quantity :: real
  pos_entryPrice :: real
  pos_currentPrice :: real
  pos_liquidationPrice :: real
  pos_unrealizedPnl :: real
  pos_leverage :: real

text \<open>What \<open>placeOrder\<close> is called with, and what \<open>placeOrder\<close> and \<open>getOrder\<close> answer.
  The tools set the key \<open>reduceOnly\<close>, the scheduler sets \<open>isReduceOnly\<close>; an absent
  key is \<open>False\<close>. An empty \<open>ord_id\<close> is the falsy id of the source.\<close>

record order_params =
  req_symbol :: string
  req_side :: side
  req_quantity :: real
  req_leverage :: "real option"
  req_reduceOnly :: bool
  req_isReduceOnly :: bool

record order =
  ord_id :: string
  ord_status :: string
  ord_price :: real
  ord_filled :: real

text \<open>A row of the \<open>trades\<close> table: the values of an INSERT, and the stored row with its id.\<close>

datatype trade_type = OpenTrade | CloseTrade

record trade_args =
  t_order_id :: string
  t_symbol :: string
  t_side :: side
  t_type :: trade_type
  t_price :: real
  t_quantity :: real
  t_leverage :: real
  t_pnl :: "real option"
  t_fee :: real
  t_timestamp :: string
  t_status :: string

record trade = trade_args +
  t_id :: nat

section \<open>Closing a position (tools/trading/tradeExecution.ts, closePositionTool)\<close>

text \<open>
  The net PnL block that closePositionTool repeats inline (lines 590-604, 656-672 and
  689-696): price change by side, times size and multiplier, minus the open and the close
  fee at 0.05 percent each.
\<close>

definition closeNetPnl :: "side \<Rightarrow> real \<Rightarrow> real \<Rightarrow> real \<Rightarrow> real \<Rightarrow> real" where
  "closeNetPnl sd entryPrice exitPrice sz quantoMultiplier =
     (let priceChange = (if sd = Long then exitPrice - entryPrice else entryPrice - exitPrice);
          grossPnl = priceChange * sz * quantoMultiplier;
          openFee = entryPrice * sz * quantoMultiplier * 0.0005;
          closeFee = exitPrice * sz * quantoMultiplier * 0.0005;
          totalFees = openFee + closeFee
      in grossPnl - totalFees)"

text \<open>
  The check before the INSERT (lines 709-738): the fees are recomputed, and a pnl that is
  nearer to the notional value than to the expected pnl is replaced by the expected pnl.
  The result is the pair (pnl, totalFee) that is written.
\<close>

definition closePnlCheck :: "side \<Rightarrow> real \<Rightarrow> real \<Rightarrow> real \<Rightarrow> real \<Rightarrow> real \<Rightarrow> real \<times> real" where
  "closePnlCheck sd entryPrice actualExitPrice actualCloseSize dbQuantoMultiplier pnl =
     (let dbOpenFee = entryPrice * actualCloseSize * dbQuantoMultiplier * 0.0005;
          dbCloseFee = actualExitPrice * actualCloseSize * dbQuantoMultiplier * 0.0005;
          totalFee = dbOpenFee + dbCloseFee;
          notionalValue = actualExitPrice * actualCloseSize * dbQuantoMultiplier;
          priceChangeCheck = (if sd = Long then actualExitPrice - entryPrice
                              else entryPrice - actualExitPrice);
          expectedPnl = priceChangeCheck * actualCloseSize * dbQuantoMultiplier - totalFee
      in (if \<bar>pnl - notionalValue\<bar> < \<bar>pnl - expectedPnl\<bar> then expectedPnl else pnl, totalFee))"

text \<open>
  The world closePositionTool talks to. Each field is the answer of one call, \<open>None\<close>
  when the call throws: the exchange's position list (\<open>getPositions\<close>), the ticker's mark
  price (\<open>getFuturesTicker\<close>), the contract multiplier (\<open>getQuantoMultiplier\<close>, whose
  file is not part of the sources at hand; it answers the same at every call of one run),
  \<open>placeOrder\<close>, the successive \<open>getOrder\<close> calls, the account's total balance
  (\<open>getFuturesAccount\<close>), whether the INSERT into \<open>trades\<close> goes through, and the clock.
\<close>

record close_env =
  ce_positions :: "position list option"
  ce_markPrice :: "real option"
  ce_quantoMultiplier :: "real option"
  ce_placeOrder :: "order_params \<Rightarrow> order option"
  ce_getOrder :: "nat \<Rightarrow> order option"
  ce_totalBalance :: "real option"
  ce_insertAnswers :: bool
  ce_now :: string

record close_fill =
  cf_exitPrice :: real
  cf_closeSize :: real
  cf_status :: string
  cf_pnl :: real

text \<open>
  The polling loop (lines 624-703), \<open>maxRetries = 3\<close>. An answer ends the loop; a throw
  counts a retry, and the third throw falls back to the estimate.
\<close>

function closePoll ::
  "(nat \<Rightarrow> order option) \<Rightarrow> side \<Rightarrow> real \<Rightarrow> real \<Rightarrow> real \<Rightarrow> real \<Rightarrow> nat \<Rightarrow> close_fill \<Rightarrow> close_fill" where
  "closePoll getOrder sd entryPrice currentPrice closeSize mult retryCount st =
     (if retryCount < 3 then
        (case getOrder retryCount of
           Some orderDetail \<Rightarrow>
             (let actualCloseSize = (if ord_filled orderDetail > 0 then ord_filled orderDetail
                                     else cf_closeSize st);
                  actualExitPrice = (if ord_price orderDetail > 0 then ord_price orderDetail
                                     else cf_exitPrice st)
              in \<lparr>cf_exitPrice = actualExitPrice, cf_closeSize = actualCloseSize,
                  cf_status = ord_status orderDetail,
                  cf_pnl = closeNetPnl sd entryPrice actualExitPrice actualCloseSize mult\<rparr>)
         | None \<Rightarrow>
             (if Suc retryCount \<ge> 3 then
                closePoll getOrder sd entryPrice currentPrice closeSize mult (Suc retryCount)
                  \<lparr>cf_exitPrice = currentPrice, cf_closeSize = closeSize,
                   cf_status = cf_status st,
                   cf_pnl = closeNetPnl sd entryPrice currentPrice closeSize mult\<rparr>
              else closePoll getOrder sd entryPrice currentPrice closeSize mult (Suc retryCount) st))
      else st)"
  by pat_completeness auto
termination
  by (relation "measure (\<lambda>(g, sd, e, c, z, m, retryCount, st). 3 - retryCount)") auto

declare closePoll.simps [simp del]

text \<open>
  What follows the call of \<open>placeOrder\<close> up to the values of the INSERT (lines 616-773):
  the fill is polled when the order has an id, the pnl is checked, and the row is put
  together.
\<close>

definition closeTradeRow ::
  "close_env \<Rightarrow> real \<Rightarrow> string \<Rightarrow> side \<Rightarrow> real \<Rightarrow> real \<Rightarrow> real \<Rightarrow> real \<Rightarrow> order \<Rightarrow> trade_args" where
  "closeTradeRow env quantoMultiplier symbol sd entryPrice currentPrice leverage closeSize order =
     (let pnl = closeNetPnl sd entryPrice currentPrice closeSize quantoMultiplier;
          st0 = \<lparr>cf_exitPrice = currentPrice, cf_closeSize = closeSize,
                 cf_status = ord_status order, cf_pnl = pnl\<rparr>;
          st = (if ord_id order \<noteq> []
                then closePoll (ce_getOrder env) sd entryPrice currentPrice closeSize
                       quantoMultiplier 0 st0
                else st0);
          checked = closePnlCheck sd entryPrice (cf_exitPrice st) (cf_closeSize st)
                      quantoMultiplier (cf_pnl st);
          dbStatus = (if cf_status st = ''finished'' then ''filled'' else ''pending'')
      in \<lparr>t_order_id = ord_id order, t_symbol = symbol, t_side = sd, t_type = CloseTrade,
          t_price = cf_exitPrice st, t_quantity = cf_closeSize st, t_leverage = leverage,
          t_pnl = Some (fst checked), t_fee = snd checked, t_timestamp = ce_now env,
          t_status = dbStatus\<rparr>)"

text \<open>
  The prices of the close (lines 561-577): the ticker is asked only when the position's
  mark price or entry price is 0, and a throw of that call ends the tool. The result is
  the pair (entry price, current price).
\<close>

definition closePrices :: "close_env \<Rightarrow> position \<Rightarrow> (real \<times> real) option" where
  "closePrices env gatePosition =
     (if pos_currentPrice gatePosition = 0 \<or> pos_entryPrice gatePosition = 0 then
        (case ce_markPrice env of
           None \<Rightarrow> None
         | Some markPrice \<Rightarrow>
             (let currentPrice = (if pos_currentPrice gatePosition = 0 then markPrice
                                  else pos_currentPrice gatePosition);
                  entryPrice = (if pos_entryPrice gatePosition = 0 then currentPrice
                                else pos_entryPrice gatePosition)
              in Some (entryPrice, currentPrice)))
      else Some (pos_entryPrice gatePosition, pos_currentPrice gatePosition))"

text \<open>The close quantity (line 580): the product and the quotient are doubles, and the
  floor is taken of the quotient as computed.\<close>

definition closeSizeOf :: "real \<Rightarrow> real \<Rightarrow> real" where
  "closeSizeOf quantity percentage = jsFloor (binary64 (binary64 (quantity * percentage) / 100))"

text \<open>
  The outcomes of closePositionTool up to the INSERT into \<open>trades\<close>: a rejection by one
  of the two checks; \<open>CloseFailed\<close>, the catch block reached before \<open>placeOrder\<close> has
  answered; \<open>CloseFailedAfterOrder\<close>, the catch block reached after the order was placed
  and before a row was written; \<open>CloseWritten\<close>, the order placed and the row written.
\<close>

datatype close_reject = InvalidPercentage | NoPositionFound

datatype close_result =
  CloseRejected close_reject
  | CloseFailed
  | CloseFailedAfterOrder order_params
  | CloseWritten order_params trade_args

text \<open>
  closePositionTool up to the INSERT into \<open>trades\<close> (lines 534-773). The cancelling of
  linked stop orders and the removal of the local position row that follow the INSERT are
  not part of this model.
\<close>

definition closePositionTool :: "close_env \<Rightarrow> string \<Rightarrow> real \<Rightarrow> close_result" where
  "closePositionTool env symbol percentage =
     (if percentage \<le> 0 \<or> percentage > 100 then CloseRejected InvalidPercentage
      else case ce_positions env of
        None \<Rightarrow> CloseFailed
      | Some allPositions \<Rightarrow>
         (case find (\<lambda>p. pos_symbol p = symbol) allPositions of
            None \<Rightarrow> CloseRejected NoPositionFound
          | Some gatePosition \<Rightarrow>
              if pos_quantity gatePosition = 0 then CloseRejected NoPositionFound
              else
                (case closePrices env gatePosition of
                   None \<Rightarrow> CloseFailed
                 | Some (entryPrice, currentPrice) \<Rightarrow>
                     (let sd = pos_side gatePosition;
                          quantity = pos_quantity gatePosition;
                          leverage = pos_leverage gatePosition;
                          closeSize = closeSizeOf quantity percentage;
                          reduceOnlyOrder = \<lparr>req_symbol = symbol, req_side = oppositeSide sd,
                                             req_quantity = closeSize, req_leverage = None,
                                             req_reduceOnly = True, req_isReduceOnly = False\<rparr>
                      in case ce_quantoMultiplier env of
                           None \<Rightarrow> CloseFailed
                         | Some quantoMultiplier \<Rightarrow>
                             (case ce_placeOrder env reduceOnlyOrder of
                                None \<Rightarrow> CloseFailed
                              | Some order \<Rightarrow>
                                  if ce_totalBalance env = None \<or> \<not> ce_insertAnswers env
                                  then CloseFailedAfterOrder reduceOnlyOrder
                                  else CloseWritten reduceOnlyOrder
                                         (closeTradeRow env quantoMultiplier symbol sd entryPrice
                                            currentPrice leverage closeSize order))))))"

section \<open>Strategy parameters (agents/tradingAgent.ts, getStrategyParams)\<close>

text \<open>
  \<open>RISK_PARAMS\<close> lives in config/riskParams, which is not among the sources at hand;
  its \<open>MAX_LEVERAGE\<close> is a parameter here. Only the fields the engine reads are kept
  (the leverage range and the stop-loss table; the rest is prompt text).
\<close>

datatype TradingStrategy = Conservative | Balanced | Aggressive

record StrategyParams =
  leverageMin :: real
  leverageMax :: real
  stopLoss_low :: real
  stopLoss_mid :: real
  stopLoss_high :: real

definition getStrategyParams :: "real \<Rightarrow> TradingStrategy \<Rightarrow> StrategyParams" where
  "getStrategyParams maxLeverage strategy =
     (let conservativeLevMin = max 1 (jsCeil (maxLeverage * 0.3));
          conservativeLevMax = max 2 (jsCeil (maxLeverage * 0.6));
          balancedLevMin = max 2 (jsCeil (maxLeverage * 0.6));
          balancedLevMax = max 3 (jsCeil (maxLeverage * 0.85));
          aggressiveLevMin = max 3 (jsCeil (maxLeverage * 0.85));
          aggressiveLevMax = maxLeverage
      in case strategy of
           Conservative \<Rightarrow>
             \<lparr>leverageMin = conservativeLevMin, leverageMax = conservativeLevMax,
              stopLoss_low = - 3.5, stopLoss_mid = - 3, stopLoss_high = - 2.5\<rparr>
         | Balanced \<Rightarrow>
             \<lparr>leverageMin = balancedLevMin, leverageMax = balancedLevMax,
              stopLoss_low = - 3, stopLoss_mid = - 2.5, stopLoss_high = - 2\<rparr>
         | Aggressive \<Rightarrow>
             \<lparr>leverageMin = aggressiveLevMin, leverageMax = aggressiveLevMax,
              stopLoss_low = - 2.5, stopLoss_mid = - 2, stopLoss_high = - 1.5\<rparr>)"

section \<open>The forced risk check of a tick (scheduler/tradingLoop.ts, executeTradingDecision)\<close>

text \<open>Leveraged PnL percent (lines 1225-1228).\<close>

definition pnlPercentOf :: "side \<Rightarrow> real \<Rightarrow> real \<Rightarrow> real \<Rightarrow> real" where
  "pnlPercentOf sd entryPrice currentPrice leverage =
     (let priceChangePercent =
            (if entryPrice > 0
             then (currentPrice - entryPrice) / entryPrice * 100 * (if sd = Long then 1 else - 1)
             else 0)
      in priceChangePercent * leverage)"

text \<open>The stop-loss line by leverage band (lines 1275-1285).\<close>

definition stopLossPercentOf :: "StrategyParams \<Rightarrow> real \<Rightarrow> real" where
  "stopLossPercentOf params leverage =
     (let leverageMid = jsFloor ((leverageMin params + leverageMax params) / 2);
          leverageHigh = jsFloor (leverageMin params
                                  + (leverageMax params - leverageMin params) * 0.75)
      in if leverage \<ge> leverageHigh then stopLoss_high params
         else if leverage \<ge> leverageMid then stopLoss_mid params
         else stopLoss_low params)"

text \<open>
  The four rules (lines 1255-1324), with the two variables \<open>shouldClose\<close> and
  \<open>closeReason\<close> threaded through as a pair. The reason strings of the source are
  distinct message templates; each is one constructor here.
\<close>

datatype close_reason = NoReason | MaxHoldTime | StopLoss | TrailingStop | PeakDrawdown

definition ruleHoldingTime :: "real \<Rightarrow> bool \<times> close_reason" where
  "ruleHoldingTime holdingHours =
     (if holdingHours \<ge> 36 then (True, MaxHoldTime) else (False, NoReason))"

definition ruleStopLoss :: "real \<Rightarrow> real \<Rightarrow> bool \<times> close_reason \<Rightarrow> bool \<times> close_reason" where
  "ruleStopLoss pnlPercent stopLossPercent st =
     (if pnlPercent \<le> stopLossPercent then (True, StopLoss) else st)"

definition trailingStopPercentOf :: "real \<Rightarrow> real \<Rightarrow> real" where
  "trailingStopPercentOf pnlPercent stopLossPercent =
     (if pnlPercent \<ge> 25 then 15
      else if pnlPercent \<ge> 15 then 8
      else if pnlPercent \<ge> 8 then 3
      else stopLossPercent)"

definition ruleTrailing :: "real \<Rightarrow> real \<Rightarrow> bool \<times> close_reason \<Rightarrow> bool \<times> close_reason" where
  "ruleTrailing pnlPercent stopLossPercent st =
     (if \<not> fst st then
        (let trailingStopPercent = trailingStopPercentOf pnlPercent stopLossPercent
         in if pnlPercent < trailingStopPercent \<and> trailingStopPercent > stopLossPercent
            then (True, TrailingStop) else st)
      else st)"

definition rulePeakDrawdown :: "real \<Rightarrow> real \<Rightarrow> bool \<times> close_reason \<Rightarrow> bool \<times> close_reason" where
  "rulePeakDrawdown pnlPercent peakPnlPercent st =
     (if \<not> fst st \<and> peakPnlPercent > 5 then
        (let drawdownFromPeak =
               (if peakPnlPercent > 0
                then ((peakPnlPercent - pnlPercent) / peakPnlPercent) * 100 else 0)
         in if drawdownFromPeak \<ge> 30 then (True, PeakDrawdown) else st)
      else st)"

definition riskCheck :: "StrategyParams \<Rightarrow> real \<Rightarrow> real \<Rightarrow> real \<Rightarrow> real \<Rightarrow> bool \<times> close_reason" where
  "riskCheck params leverage pnlPercent peakPnlPercent holdingHours =
     (let stopLossPercent = stopLossPercentOf params leverage
      in rulePeakDrawdown pnlPercent peakPnlPercent
           (ruleTrailing pnlPercent stopLossPercent
              (ruleStopLoss pnlPercent stopLossPercent
                 (ruleHoldingTime holdingHours))))"

section \<open>The local positions table\<close>

text \<open>
  A row of the \<open>positions\<close> table. Times are milliseconds since the epoch (what
  \<open>new Date(...).getTime()\<close> reads from the stored text). \<open>peak_pnl_percent\<close> is
  \<open>None\<close> while no statement has written it: the INSERT statements of the sources never
  name that column, and the one read of it, \<open>parseFloat(peak_pnl_percent || "0")\<close>,
  takes the unwritten value as 0.
\<close>

record db_position =
  dp_symbol :: string
  dp_quantity :: real
  dp_entry_price :: real
  dp_current_price :: real
  dp_liquidation_price :: real
  dp_unrealized_pnl :: real
  dp_leverage :: real
  dp_side :: side
  dp_stop_loss :: "real option"
  dp_profit_target :: "real option"
  dp_sl_order_id :: "string option"
  dp_tp_order_id :: "string option"
  dp_entry_order_id :: string
  dp_opened_at :: int
  dp_peak_pnl_percent :: "real option"

text \<open>\<open>x || null\<close> on a nullable number and on a nullable string: 0 and the empty
  string are falsy.\<close>

definition numOrNull :: "real option \<Rightarrow> real option" where
  "numOrNull v = (case v of Some x \<Rightarrow> (if x = 0 then None else Some x) | None \<Rightarrow> None)"

definition strOrNull :: "string option \<Rightarrow> string option" where
  "strOrNull v = (case v of Some x \<Rightarrow> (if x = [] then None else Some x) | None \<Rightarrow> None)"

text \<open>\<open>new Map(rows.map(row => [row.symbol, row]))\<close>: a later row of the same symbol
  replaces an earlier one.\<close>

definition dbPositionsMap :: "db_position list \<Rightarrow> string \<Rightarrow> db_position option" where
  "dbPositionsMap rows = map_of (rev (map (\<lambda>row. (dp_symbol row, row)) rows))"

text \<open>
  What the sync needs besides the exchange's position list: the ticker's mark price per
  symbol (\<open>None\<close>: the call throws), and the clock, as a number and as the text that goes
  into a synthetic order id. The estimate of a missing liquidation price divides by the
  leverage; for a leverage of 0 the source's value is infinite and the model's value
  means nothing.
\<close>

record sync_env =
  se_markPrice :: "string \<Rightarrow> real option"
  se_now :: int
  se_nowText :: string

definition syncRow :: "sync_env \<Rightarrow> (string \<Rightarrow> db_position option) \<Rightarrow> position \<Rightarrow> db_position" where
  "syncRow env dbMap pos =
     (let symbol = pos_symbol pos;
          leverage = pos_leverage pos;
          sd = pos_side pos;
          needTicker = (pos_entryPrice pos = 0 \<or> pos_currentPrice pos = 0);
          currentPrice = (if needTicker \<and> pos_currentPrice pos = 0
                          then (case se_markPrice env symbol of Some m \<Rightarrow> m | None \<Rightarrow> 0)
                          else pos_currentPrice pos);
          entryPrice = (if needTicker \<and> pos_entryPrice pos = 0
                        then (case se_markPrice env symbol of Some m \<Rightarrow> currentPrice | None \<Rightarrow> 0)
                        else pos_entryPrice pos);
          liquidationPrice =
            (if pos_liquidationPrice pos = 0 \<and> entryPrice > 0
             then (if sd = Long then entryPrice * (1 - 0.9 / leverage)
                   else entryPrice * (1 + 0.9 / leverage))
             else pos_liquidationPrice pos);
          dbPos = dbMap symbol;
          entryOrderId =
            (case dbPos of
               Some r \<Rightarrow> (if dp_entry_order_id r \<noteq> [] then dp_entry_order_id r
                           else ''synced-'' @ symbol @ ''-'' @ se_nowText env)
             | None \<Rightarrow> ''synced-'' @ symbol @ ''-'' @ se_nowText env)
      in \<lparr>dp_symbol = symbol, dp_quantity = pos_quantity pos, dp_entry_price = entryPrice,
          dp_current_price = currentPrice, dp_liquidation_price = liquidationPrice,
          dp_unrealized_pnl = pos_unrealizedPnl pos, dp_leverage = leverage, dp_side = sd,
          dp_stop_loss = (case dbPos of Some r \<Rightarrow> numOrNull (dp_stop_loss r) | None \<Rightarrow> None),
          dp_profit_target =
            (case dbPos of Some r \<Rightarrow> numOrNull (dp_profit_target r) | None \<Rightarrow> None),
          dp_sl_order_id = (case dbPos of Some r \<Rightarrow> strOrNull (dp_sl_order_id r) | None \<Rightarrow> None),
          dp_tp_order_id = (case dbPos of Some r \<Rightarrow> strOrNull (dp_tp_order_id r) | None \<Rightarrow> None),
          dp_entry_order_id = entryOrderId,
          dp_opened_at = (case dbPos of Some r \<Rightarrow> dp_opened_at r | None \<Rightarrow> se_now env),
          dp_peak_pnl_percent = None\<rparr>)"

text \<open>
  syncPositionsFromGate (lines 709-799): nothing is touched when the exchange shows no
  position and the table has rows; otherwise the table is emptied and refilled from the
  exchange's list, metadata taken from the rows read before the DELETE.
\<close>

definition syncPositionsFromGate :: "sync_env \<Rightarrow> position list \<Rightarrow> db_position list \<Rightarrow> db_position list" where
  "syncPositionsFromGate env positions dbRows =
     (if length positions = 0 \<and> length dbRows > 0 then dbRows
      else map (syncRow env (dbPositionsMap dbRows)) positions)"

text \<open>syncPositionsTool (tools/trading/accountManagement.ts, lines 305-353).\<close>

definition syncPositionsTool :: "sync_env \<Rightarrow> position list \<Rightarrow> db_position list \<Rightarrow> db_position list" where
  "syncPositionsTool env positions dbRows =
     map (\<lambda>p. \<lparr>dp_symbol = pos_symbol p, dp_quantity = pos_quantity p,
               dp_entry_price = pos_entryPrice p, dp_current_price = pos_currentPrice p,
               dp_liquidation_price = pos_liquidationPrice p,
               dp_unrealized_pnl = pos_unrealizedPnl p, dp_leverage = pos_leverage p,
               dp_side = pos_side p, dp_stop_loss = None, dp_profit_target = None,
               dp_sl_order_id = None, dp_tp_order_id = None, dp_entry_order_id = ''synced'',
               dp_opened_at = se_now env, dp_peak_pnl_percent = None\<rparr>) positions"

text \<open>
  Reading and raising the peak (lines 1230-1253): the first row of the symbol is read, and
  the UPDATE writes every row of the symbol. Without a row the peak stays 0 and nothing is
  written. The result is the peak used by the rules and the table.
\<close>

definition updatePeak :: "db_position list \<Rightarrow> string \<Rightarrow> real \<Rightarrow> real \<times> db_position list" where
  "updatePeak dbRows symbol pnlPercent =
     (case find (\<lambda>r. dp_symbol r = symbol) dbRows of
        None \<Rightarrow> (0, dbRows)
      | Some row \<Rightarrow>
          (let peakPnlPercent = (case dp_peak_pnl_percent row of Some v \<Rightarrow> v | None \<Rightarrow> 0)
           in if pnlPercent > peakPnlPercent
              then (pnlPercent,
                    map (\<lambda>r. if dp_symbol r = symbol
                              then r\<lparr>dp_peak_pnl_percent := Some pnlPercent\<rparr> else r) dbRows)
              else (peakPnlPercent, dbRows)))"

text \<open>
  The tick's own view of the positions (getPositions, lines 806-852): the exchange's list
  with the opening time of the local row, or the current time when there is none.
\<close>

record held_position =
  hp_symbol :: string
  hp_quantity :: real
  hp_side :: side
  hp_entry_price :: real
  hp_current_price :: real
  hp_leverage :: real
  hp_opened_at :: int

definition getPositions :: "int \<Rightarrow> position list \<Rightarrow> db_position list \<Rightarrow> held_position list" where
  "getPositions now exchangePositions dbRows =
     map (\<lambda>p. \<lparr>hp_symbol = pos_symbol p, hp_quantity = pos_quantity p, hp_side = pos_side p,
               hp_entry_price = pos_entryPrice p, hp_current_price = pos_currentPrice p,
               hp_leverage = pos_leverage p,
               hp_opened_at = (case dbPositionsMap dbRows (pos_symbol p) of
                                 Some r \<Rightarrow> dp_opened_at r | None \<Rightarrow> now)\<rparr>)
         exchangePositions"

text \<open>
  The forced liquidation of one position (lines 1327-1462). The order's status is asked
  for up to five times; only a \<open>finished\<close> answer fills in price, quantity, pnl and fee.
\<close>

record forced_fill =
  ff_exitPrice :: real
  ff_quantity :: real
  ff_pnl :: real
  ff_totalFee :: real
  ff_filled :: bool

function forcedPoll ::
  "(nat \<Rightarrow> order option) \<Rightarrow> side \<Rightarrow> real \<Rightarrow> real \<Rightarrow> nat \<Rightarrow> forced_fill \<Rightarrow> forced_fill" where
  "forcedPoll getOrder sd entryPrice quantoMultiplier retry st =
     (if retry < 5 then
        (case getOrder retry of
           Some orderStatus \<Rightarrow>
             (if ord_status orderStatus = ''finished'' then
                (let actualExitPrice = ord_price orderStatus;
                     actualQuantity = ord_filled orderStatus;
                     priceChange = (if sd = Long then actualExitPrice - entryPrice
                                    else entryPrice - actualExitPrice);
                     grossPnl = priceChange * actualQuantity * quantoMultiplier;
                     openFee = entryPrice * actualQuantity * quantoMultiplier * 0.0005;
                     closeFee = actualExitPrice * actualQuantity * quantoMultiplier * 0.0005;
                     totalFee = openFee + closeFee
                 in \<lparr>ff_exitPrice = actualExitPrice, ff_quantity = actualQuantity,
                     ff_pnl = grossPnl - totalFee, ff_totalFee = totalFee, ff_filled = True\<rparr>)
              else forcedPoll getOrder sd entryPrice quantoMultiplier (Suc retry) st)
         | None \<Rightarrow> forcedPoll getOrder sd entryPrice quantoMultiplier (Suc retry) st)
      else st)"
  by pat_completeness auto
termination
  by (relation "measure (\<lambda>(g, sd, e, m, retry, st). 5 - retry)") auto

declare forcedPoll.simps [simp del]

text \<open>
  The check before the INSERT (lines 1388-1408). \<open>actualExitPrice || pos.current_price\<close>
  takes the position's price when the exit price is 0; the expected pnl subtracts the
  \<open>totalFee\<close> of the polling loop. The result is the price and the pnl that are written.
\<close>

definition forcedPnlCheck :: "side \<Rightarrow> real \<Rightarrow> real \<Rightarrow> real \<Rightarrow> forced_fill \<Rightarrow> real \<times> real" where
  "forcedPnlCheck sd entry_price current_price quantoMultiplier st =
     (let finalPrice = (if ff_exitPrice st \<noteq> 0 then ff_exitPrice st else current_price);
          notionalValue = finalPrice * ff_quantity st * quantoMultiplier;
          priceChangeCheck = (if sd = Long then finalPrice - entry_price
                              else entry_price - finalPrice);
          expectedPnl = priceChangeCheck * ff_quantity st * quantoMultiplier - ff_totalFee st
      in (finalPrice,
          if \<bar>ff_pnl st - notionalValue\<bar> < \<bar>ff_pnl st - expectedPnl\<bar> then expectedPnl
          else ff_pnl st))"

text \<open>The ledger: the positions table and the trades table. A new trade row gets an id
  above every id in the table.\<close>

record ledger =
  lg_positions :: "db_position list"
  lg_trades :: "trade list"

definition insertTrade :: "trade_args \<Rightarrow> trade list \<Rightarrow> trade list" where
  "insertTrade a T =
     T @ [\<lparr>t_order_id = t_order_id a, t_symbol = t_symbol a, t_side = t_side a,
           t_type = t_type a, t_price = t_price a, t_quantity = t_quantity a,
           t_leverage = t_leverage a, t_pnl = t_pnl a, t_fee = t_fee a,
           t_timestamp = t_timestamp a, t_status = t_status a,
           t_id = Suc (fold max (map t_id T) 0)\<rparr>]"

text \<open>The world of a tick. \<open>tk_getOrder\<close> is indexed by the order id and the number of the
  attempt; \<open>tk_quantoMultiplier symbol\<close> stands for
  \<open>getQuantoMultiplier(normalizeSymbol(symbol))\<close>.\<close>

record tick_env =
  tk_sync :: sync_env
  tk_rawPositions :: "position list"
  tk_placeOrder :: "order_params \<Rightarrow> order option"
  tk_getOrder :: "string \<Rightarrow> nat \<Rightarrow> order option"
  tk_quantoMultiplier :: "string \<Rightarrow> real"
  tk_maxLeverage :: real
  tk_strategy :: TradingStrategy
  tk_nowText :: string

definition forcedTradeRow :: "tick_env \<Rightarrow> held_position \<Rightarrow> order \<Rightarrow> trade_args" where
  "forcedTradeRow env pos order =
     (let sd = hp_side pos;
          quantoMultiplier = tk_quantoMultiplier env (hp_symbol pos);
          st0 = \<lparr>ff_exitPrice = 0, ff_quantity = \<bar>hp_quantity pos\<bar>, ff_pnl = 0,
                 ff_totalFee = 0, ff_filled = False\<rparr>;
          st = forcedPoll (tk_getOrder env (ord_id order)) sd (hp_entry_price pos)
                 quantoMultiplier 0 st0;
          (finalPrice, pnl) = forcedPnlCheck sd (hp_entry_price pos) (hp_current_price pos)
                                quantoMultiplier st
      in \<lparr>t_order_id = ord_id order, t_symbol = hp_symbol pos, t_side = sd,
          t_type = CloseTrade, t_price = finalPrice, t_quantity = ff_quantity st,
          t_leverage = (if hp_leverage pos \<noteq> 0 then hp_leverage pos else 1),
          t_pnl = Some pnl, t_fee = ff_totalFee st, t_timestamp = tk_nowText env,
          t_status = (if ff_filled st then ''filled'' else ''pending'')\<rparr>)"

definition forcedLiquidation :: "tick_env \<Rightarrow> held_position \<Rightarrow> ledger \<Rightarrow> ledger" where
  "forcedLiquidation env pos lg =
     (case tk_placeOrder env
             \<lparr>req_symbol = hp_symbol pos, req_side = oppositeSide (hp_side pos),
              req_quantity = hp_quantity pos, req_leverage = None,
              req_reduceOnly = False, req_isReduceOnly = True\<rparr> of
        None \<Rightarrow> lg
      | Some order \<Rightarrow>
          \<lparr>lg_positions = filter (\<lambda>r. dp_symbol r \<noteq> hp_symbol pos) (lg_positions lg),
           lg_trades = insertTrade (forcedTradeRow env pos order) (lg_trades lg)\<rparr>)"

text \<open>
  One position of the loop (lines 1217-1463): leveraged PnL percent, the peak, the four
  rules, and the liquidation when they ask for it. The decisions taken are collected
  next to the ledger.
\<close>

definition holdingHoursOf :: "int \<Rightarrow> int \<Rightarrow> real" where
  "holdingHoursOf now openedTime = real_of_int (now - openedTime) / (1000 * 60 * 60)"

definition riskStep ::
  "tick_env \<Rightarrow> held_position \<Rightarrow> (string \<times> bool \<times> close_reason) list \<times> ledger
     \<Rightarrow> (string \<times> bool \<times> close_reason) list \<times> ledger" where
  "riskStep env pos acc =
     (let lg = snd acc;
          pnlPercent = pnlPercentOf (hp_side pos) (hp_entry_price pos) (hp_current_price pos)
                         (hp_leverage pos);
          (peakPnlPercent, rows) = updatePeak (lg_positions lg) (hp_symbol pos) pnlPercent;
          lg1 = lg\<lparr>lg_positions := rows\<rparr>;
          holdingHours = holdingHoursOf (se_now (tk_sync env)) (hp_opened_at pos);
          params = getStrategyParams (tk_maxLeverage env) (tk_strategy env);
          decision = riskCheck params (hp_leverage pos) pnlPercent peakPnlPercent holdingHours
      in (fst acc @ [(hp_symbol pos, decision)],
          if fst decision then forcedLiquidation env pos lg1 else lg1))"

text \<open>
  Steps 3 and 4 of a tick (lines 1193-1463): read the exchange's positions once, build
  the tick's view, sync the table (once more when the counts differ), then check every
  position in turn.
\<close>

definition forcedRiskControl ::
  "tick_env \<Rightarrow> ledger \<Rightarrow> (string \<times> bool \<times> close_reason) list \<times> ledger" where
  "forcedRiskControl env lg =
     (let rawPositions = tk_rawPositions env;
          positions = getPositions (se_now (tk_sync env)) rawPositions (lg_positions lg);
          rows1 = syncPositionsFromGate (tk_sync env) rawPositions (lg_positions lg);
          rows2 = (if length positions \<noteq> length rows1
                   then syncPositionsFromGate (tk_sync env) rawPositions rows1 else rows1)
      in fold (riskStep env) positions ([], lg\<lparr>lg_positions := rows2\<rparr>))"

section \<open>The account checks\<close>









section \<open>Opening a position (tools/trading/tradeExecution.ts, openPositionTool)\<close>

text \<open>
  The intent of the decision generator, and the world the tool reads: the environment
  flags, the \<open>RISK_PARAMS\<close> it uses, the exchange's positions and account, the peak of
  \<open>account_history\<close> (\<open>None\<close>: no row), the contract multiplier by exchange symbol, the
  ticker's last price and the contract's size limits.
\<close>

record open_intent =
  oi_symbol :: string
  oi_side :: side
  oi_leverage :: real
  oi_amountUsdt :: real

record open_env =
  oe_REVERSE_POSITIONS :: bool
  oe_EXCHANGE_binance :: bool
  oe_MAX_LEVERAGE :: real
  oe_MAX_POSITIONS :: nat
  oe_ACCOUNT_DRAWDOWN_NO_NEW_POSITION_PERCENT :: real
  oe_positions :: "position list"
  oe_totalBalance :: real
  oe_availableBalance :: real
  oe_peak :: "real option"
  oe_normalizeSymbol :: "string \<Rightarrow> string"
  oe_quantoMultiplier :: "string \<Rightarrow> real"
  oe_lastPrice :: real
  oe_orderSizeMin :: real
  oe_orderSizeMax :: real

datatype open_reject =
  InvalidAmount | InvalidLeverage | MaxPositionsReached | OppositeDirectionHeld
  | AvailableBalanceAnomaly | DrawdownNoNewPosition | ExposureExceeded
  | MinNotionalMargin | BelowMinSize

text \<open>
  The outcomes up to the opening order: a rejection, the call of \<open>placeOrder\<close> with a
  finite quantity, and the call of \<open>placeOrder\<close> with the quantity Infinity or NaN, which
  the source reaches through a division by zero (symbol, side and leverage of that call
  are kept).
\<close>

datatype nonfinite = PlusInfinity | NotANumber

datatype open_result =
  OpenRejected open_reject
  | OrderPlaced order_params
  | OrderPlacedNonFinite string side real nonfinite

text \<open>Guard 4 (lines 139-163): the drawdown from the peak of the account history.\<close>

definition drawdownFromPeakOf :: "real option \<Rightarrow> real \<Rightarrow> real" where
  "drawdownFromPeakOf peak totalBalance =
     (let peakBalance = (case peak of Some v \<Rightarrow> (if v = 0 then totalBalance else v)
                                     | None \<Rightarrow> totalBalance)
      in if peakBalance > 0
         then binary64 (binary64 (binary64 (peakBalance - totalBalance) / peakBalance) * 100)
         else 0)"

text \<open>Guard 5 (lines 165-186): the notional value of the open positions.\<close>

definition currentTotalExposureOf :: "(string \<Rightarrow> real) \<Rightarrow> position list \<Rightarrow> real" where
  "currentTotalExposureOf quantoMultiplier activePositions =
     fold (\<lambda>pos acc. binary64 (acc + binary64 (binary64 (pos_quantity pos * pos_entryPrice pos)
                                                  * quantoMultiplier (pos_exchangeSymbol pos))))
          activePositions 0"

text \<open>
  The number of contracts (lines 219-222): the floor of amount times leverage over
  multiplier times price, for a divisor other than 0.
\<close>

definition contractsFor :: "open_env \<Rightarrow> string \<Rightarrow> real \<Rightarrow> real \<Rightarrow> real" where
  "contractsFor env symbol leverage adjustedAmountUsdt =
     jsFloor (binary64 (binary64 (adjustedAmountUsdt * leverage)
                        / binary64 (oe_quantoMultiplier env (oe_normalizeSymbol env symbol)
                                    * oe_lastPrice env)))"

text \<open>
  The quantity within the contract's size limits (lines 219-226), \<open>None\<close> for NaN. With
  a divisor of 0 the quotient of the source is NaN for a dividend of 0, and otherwise an
  infinity whose sign is that of the dividend, reversed when the divisor is the negative
  zero, the product of a zero and a negative factor; \<open>Math.floor\<close> keeps these values,
  \<open>Math.max\<close> and \<open>Math.min\<close> turn +Infinity into the maximum size and -Infinity into
  the smaller of the two limits, and keep NaN.
\<close>

definition clampedQuantity :: "open_env \<Rightarrow> string \<Rightarrow> real \<Rightarrow> real \<Rightarrow> real option" where
  "clampedQuantity env symbol leverage adjustedAmountUsdt =
     (let currentPrice = oe_lastPrice env;
          quantoMultiplier = oe_quantoMultiplier env (oe_normalizeSymbol env symbol);
          minSize = oe_orderSizeMin env;
          maxSize = oe_orderSizeMax env;
          dividend = binary64 (adjustedAmountUsdt * leverage);
          divisor = binary64 (quantoMultiplier * currentPrice)
      in if divisor \<noteq> 0
         then Some (min (max (contractsFor env symbol leverage adjustedAmountUsdt) minSize) maxSize)
         else if dividend = 0 then None
         else if (0 < dividend) = (0 \<le> quantoMultiplier \<and> 0 \<le> currentPrice) then Some maxSize
         else Some (min minSize maxSize))"

text \<open>The last check and the opening order (lines 254-277), for a finite quantity.\<close>

definition placeOpenOrder :: "open_env \<Rightarrow> string \<Rightarrow> side \<Rightarrow> real \<Rightarrow> real \<Rightarrow> open_result" where
  "placeOpenOrder env symbol sd leverage quantity =
     (let sz = (if sd = Long then quantity else - quantity)
      in if \<bar>sz\<bar> < oe_orderSizeMin env then OpenRejected BelowMinSize
         else OrderPlaced \<lparr>req_symbol = symbol, req_side = sd, req_quantity = \<bar>sz\<bar>,
                           req_leverage = Some leverage, req_reduceOnly = False,
                           req_isReduceOnly = False\<rparr>)"

text \<open>
  The quantity and the opening order (lines 196-277); the tool arrives here with an
  amount above 0 and a leverage of at least 1. A NaN quantity fails both comparisons
  that follow it and is handed to \<open>placeOrder\<close>. On Binance with a price of 0 the
  notional value is 0, the minimum quantity for the notional is 20 / 0 = Infinity, the
  required margin is Infinity times 0 = NaN, which is not above the amount, and the order
  is placed with the quantity Infinity.
\<close>

definition openOrder :: "open_env \<Rightarrow> string \<Rightarrow> side \<Rightarrow> real \<Rightarrow> real \<Rightarrow> open_result" where
  "openOrder env symbol sd leverage adjustedAmountUsdt =
     (let currentPrice = oe_lastPrice env;
          quantoMultiplier = oe_quantoMultiplier env (oe_normalizeSymbol env symbol)
      in case clampedQuantity env symbol leverage adjustedAmountUsdt of
           None \<Rightarrow> OrderPlacedNonFinite symbol sd leverage NotANumber
         | Some quantity \<Rightarrow>
             if oe_EXCHANGE_binance env \<and> binary64 (quantity * currentPrice) < 20 then
               (if currentPrice = 0 then OrderPlacedNonFinite symbol sd leverage PlusInfinity
                else
                  (let minQuantityForNotional =
                         binary64 (jsCeil (binary64 (binary64 (20 / currentPrice) * 1000)) / 1000);
                       requiredMargin =
                         binary64 (binary64 (binary64 (minQuantityForNotional * quantoMultiplier)
                                             * currentPrice) / leverage)
                   in if requiredMargin > adjustedAmountUsdt then OpenRejected MinNotionalMargin
                      else placeOpenOrder env symbol sd leverage minQuantityForNotional))
             else placeOpenOrder env symbol sd leverage quantity)"

text \<open>
  openPositionTool up to the opening call of \<open>placeOrder\<close> (lines 64-277): the reversal
  flag, the parameter checks, the pre-trade guards in the source's order, then the order.
  The calls made on the way are taken to answer; a throw of one of them ends in the catch
  block, without an order. What follows the opening call (the polling, the ledger rows,
  and the reduce-only order on the opposite side that undoes a fill more than 2 percent
  off the price) is not modelled.
\<close>

definition openPositionTool :: "open_env \<Rightarrow> open_intent \<Rightarrow> open_result" where
  "openPositionTool env intent =
     (let symbol = oi_symbol intent;
          leverage = oi_leverage intent;
          amountUsdt = oi_amountUsdt intent;
          sd = (if oe_REVERSE_POSITIONS env then oppositeSide (oi_side intent)
                else oi_side intent);
          activePositions = oe_positions env;
          totalBalance = oe_totalBalance env
      in if amountUsdt \<le> 0 then OpenRejected InvalidAmount
         else if leverage < 1 \<or> leverage > oe_MAX_LEVERAGE env then OpenRejected InvalidLeverage
         else if length activePositions \<ge> oe_MAX_POSITIONS env
         then OpenRejected MaxPositionsReached
         else if (case find (\<lambda>p. pos_symbol p = symbol) activePositions of
                    Some existingPosition \<Rightarrow> pos_side existingPosition \<noteq> sd
                  | None \<Rightarrow> False)
         then OpenRejected OppositeDirectionHeld
         else if oe_availableBalance env \<le> 0 then OpenRejected AvailableBalanceAnomaly
         else if drawdownFromPeakOf (oe_peak env) totalBalance
                   \<ge> oe_ACCOUNT_DRAWDOWN_NO_NEW_POSITION_PERCENT env
         then OpenRejected DrawdownNoNewPosition
         else if binary64 (currentTotalExposureOf (oe_quantoMultiplier env) activePositions
                           + binary64 (amountUsdt * leverage))
                   > binary64 (totalBalance * oe_MAX_LEVERAGE env)
         then OpenRejected ExposureExceeded
         else openOrder env symbol sd leverage amountUsdt)"

section \<open>The historical PnL fixer (scheduler/tradingLoop.ts, fixHistoricalPnlRecords)\<close>

text \<open>
  The two queries. Timestamps are stored as text and compared as text. \<open>ORDER BY
  timestamp DESC\<close> is a stable sort, reversed; SQL leaves the order of equal timestamps
  open.
\<close>

definition selectCloseTrades :: "trade list \<Rightarrow> trade list" where
  "selectCloseTrades T =
     take 50 (rev (sort_key t_timestamp (filter (\<lambda>r. t_type r = CloseTrade) T)))"

definition selectOpenTrade :: "trade list \<Rightarrow> string \<Rightarrow> string \<Rightarrow> trade option" where
  "selectOpenTrade T symbol timestamp =
     (case rev (sort_key t_timestamp
                  (filter (\<lambda>r. t_symbol r = symbol \<and> t_type r = OpenTrade
                                \<and> t_timestamp r < timestamp) T)) of
        [] \<Rightarrow> None
      | openTrade # _ \<Rightarrow> Some openTrade)"

text \<open>
  The body of the loop for one close trade of the first query's result (lines 999-1054),
  in two parts: the recomputation with its tolerance test, which gives the pnl and the fee
  to write (\<open>None\<close>: no open trade found, or both within tolerance), and the UPDATE by
  id. The multiplier is asked for the contract \<open>symbol_USDT\<close>.
\<close>

definition fixedValues :: "(string \<Rightarrow> real) \<Rightarrow> trade \<Rightarrow> trade list \<Rightarrow> (real \<times> real) option" where
  "fixedValues getQuantoMultiplier closeTrade T =
     (let symbol = t_symbol closeTrade;
          closePrice = t_price closeTrade;
          quantity = t_quantity closeTrade;
          recordedPnl = (case t_pnl closeTrade of Some v \<Rightarrow> v | None \<Rightarrow> 0);
          recordedFee = t_fee closeTrade
      in case selectOpenTrade T symbol (t_timestamp closeTrade) of
           None \<Rightarrow> None
         | Some openTrade \<Rightarrow>
             (let openPrice = t_price openTrade;
                  quantoMultiplier = getQuantoMultiplier (symbol @ ''_USDT'');
                  priceChange = (if t_side closeTrade = Long then closePrice - openPrice
                                 else openPrice - closePrice);
                  grossPnl = priceChange * quantity * quantoMultiplier;
                  openFee = openPrice * quantity * quantoMultiplier * 0.0005;
                  closeFee = closePrice * quantity * quantoMultiplier * 0.0005;
                  totalFee = openFee + closeFee;
                  correctPnl = grossPnl - totalFee;
                  pnlDiff = \<bar>recordedPnl - correctPnl\<bar>;
                  feeDiff = \<bar>recordedFee - totalFee\<bar>
              in if pnlDiff > 0.5 \<or> feeDiff > 0.1 then Some (correctPnl, totalFee)
                 else None))"

definition updateTrade :: "nat \<Rightarrow> real \<Rightarrow> real \<Rightarrow> trade \<Rightarrow> trade" where
  "updateTrade i correctPnl totalFee r =
     (if t_id r = i then r\<lparr>t_pnl := Some correctPnl, t_fee := totalFee\<rparr> else r)"

definition fixCloseTrade :: "(string \<Rightarrow> real) \<Rightarrow> trade \<Rightarrow> trade list \<Rightarrow> trade list" where
  "fixCloseTrade getQuantoMultiplier closeTrade T =
     (case fixedValues getQuantoMultiplier closeTrade T of
        None \<Rightarrow> T
      | Some (correctPnl, totalFee) \<Rightarrow>
          map (updateTrade (t_id closeTrade) correctPnl totalFee) T)"

definition fixHistoricalPnlRecords :: "(string \<Rightarrow> real) \<Rightarrow> trade list \<Rightarrow> trade list" where
  "fixHistoricalPnlRecords getQuantoMultiplier T =
     fold (fixCloseTrade getQuantoMultiplier) (selectCloseTrades T) T"

section \<open>The PnL rule in the words of the specification\<close>

text \<open>
  Section 4.1 of the specification names four functions that the source has only as
  inline arithmetic. They are written here from the specification's sentences, to be
  compared with the checks of the source; the fee rate is an argument.
\<close>

definition spec_computeFee :: "real \<Rightarrow> real \<Rightarrow> real \<Rightarrow> real \<Rightarrow> real" where
  "spec_computeFee price quantity multiplier rate = price * quantity * multiplier * rate"

definition spec_computeGrossPnl :: "side \<Rightarrow> real \<Rightarrow> real \<Rightarrow> real \<Rightarrow> real \<Rightarrow> real" where
  "spec_computeGrossPnl sd entry exit quantity multiplier =
     (case sd of Long \<Rightarrow> (exit - entry) * quantity * multiplier
               | Short \<Rightarrow> - ((exit - entry) * quantity * multiplier))"

definition spec_computeNetPnl :: "side \<Rightarrow> real \<Rightarrow> real \<Rightarrow> real \<Rightarrow> real \<Rightarrow> real \<Rightarrow> real" where
  "spec_computeNetPnl sd entry exit quantity multiplier rate =
     spec_computeGrossPnl sd entry exit quantity multiplier
       - (spec_computeFee entry quantity multiplier rate
          + spec_computeFee exit quantity multiplier rate)"

definition spec_correctPnl :: "side \<Rightarrow> real \<Rightarrow> real \<Rightarrow> real \<Rightarrow> real \<Rightarrow> real \<Rightarrow> real \<Rightarrow> real" where
  "spec_correctPnl sd entry exit quantity multiplier rate pnl =
     (let notional = exit * quantity * multiplier;
          expected = spec_computeNetPnl sd entry exit quantity multiplier rate
      in if \<bar>pnl - notional\<bar> < \<bar>pnl - expected\<bar> then expected else pnl)"

section \<open>Auxiliary notions and scenarios\<close>

text \<open>
  Two notions for the proofs about the fixer: a function on rows keeps the keys of a row
  when it leaves alone what the queries and the recomputation read of other rows, and
  \<open>fixedRow\<close> is what the loop body makes of the row it was started for.
\<close>

definition keepsKeys :: "(trade \<Rightarrow> trade) \<Rightarrow> trade \<Rightarrow> bool" where
  "keepsKeys h r \<longleftrightarrow>
     t_id (h r) = t_id r \<and> t_symbol (h r) = t_symbol r \<and> t_type (h r) = t_type r
     \<and> t_timestamp (h r) = t_timestamp r \<and> t_price (h r) = t_price r"

definition fixedRow :: "(string \<Rightarrow> real) \<Rightarrow> trade list \<Rightarrow> trade \<Rightarrow> trade" where
  "fixedRow m T r =
     (case fixedValues m r T of None \<Rightarrow> r | Some (p, f) \<Rightarrow> r\<lparr>t_pnl := Some p, t_fee := f\<rparr>)"

text \<open>A trades table with one round trip whose close row carries the notional value as
  pnl and no fee.\<close>

definition exampleTrades :: "trade list" where
  "exampleTrades =
     [\<lparr>t_order_id = ''o1'', t_symbol = ''BTC'', t_side = Long, t_type = OpenTrade,
       t_price = 100, t_quantity = 10, t_leverage = 10, t_pnl = None, t_fee = 0.5,
       t_timestamp = ''2025-01-01'', t_status = ''filled'', t_id = 1\<rparr>,
      \<lparr>t_order_id = ''o2'', t_symbol = ''BTC'', t_side = Long, t_type = CloseTrade,
       t_price = 110, t_quantity = 10, t_leverage = 10, t_pnl = Some 1100, t_fee = 0,
       t_timestamp = ''2025-01-02'', t_status = ''filled'', t_id = 2\<rparr>]"

text \<open>An exchange that holds a given number of long BTC contracts (entry 100, price
  110), answers every call but \<open>getOrder\<close>, and answers every order with an id.\<close>

definition exampleCloseEnv :: "real \<Rightarrow> close_env" where
  "exampleCloseEnv quantity =
     \<lparr>ce_positions =
        Some [\<lparr>pos_symbol = ''BTC'', pos_exchangeSymbol = ''BTC_USDT'', pos_side = Long,
               pos_quantity = quantity, pos_entryPrice = 100, pos_currentPrice = 110,
               pos_liquidationPrice = 91, pos_unrealizedPnl = 10, pos_leverage = 10\<rparr>],
      ce_markPrice = Some 110, ce_quantoMultiplier = Some 1,
      ce_placeOrder = (\<lambda>req. Some \<lparr>ord_id = ''77'', ord_status = ''open'', ord_price = 0,
                                   ord_filled = 0\<rparr>),
      ce_getOrder = (\<lambda>n. None), ce_totalBalance = Some 1000, ce_insertAnswers = True,
      ce_now = ''2025-01-02''\<rparr>"

text \<open>The order that a run of closePositionTool has placed, if any.\<close>

definition closeOrderOf :: "close_result \<Rightarrow> order_params option" where
  "closeOrderOf r =
     (case r of CloseFailedAfterOrder req \<Rightarrow> Some req | CloseWritten req row \<Rightarrow> Some req
              | _ \<Rightarrow> None)"

text \<open>
  One long BTC contract as the exchange reports it, and its row in the local table with a
  given peak; a second row for ETH.
\<close>

definition btcLong :: "real \<Rightarrow> real \<Rightarrow> real \<Rightarrow> position" where
  "btcLong leverage entryPrice currentPrice =
     \<lparr>pos_symbol = ''BTC'', pos_exchangeSymbol = ''BTC_USDT'', pos_side = Long,
      pos_quantity = 1, pos_entryPrice = entryPrice, pos_currentPrice = currentPrice,
      pos_liquidationPrice = 1, pos_unrealizedPnl = 0, pos_leverage = leverage\<rparr>"

definition btcRow :: "real option \<Rightarrow> db_position" where
  "btcRow peak =
     \<lparr>dp_symbol = ''BTC'', dp_quantity = 1, dp_entry_price = 100, dp_current_price = 100,
      dp_liquidation_price = 91, dp_unrealized_pnl = 0, dp_leverage = 10, dp_side = Long,
      dp_stop_loss = None, dp_profit_target = None, dp_sl_order_id = None,
      dp_tp_order_id = None, dp_entry_order_id = ''o1'', dp_opened_at = 0,
      dp_peak_pnl_percent = peak\<rparr>"

definition ethRow :: db_position where
  "ethRow =
     \<lparr>dp_symbol = ''ETH'', dp_quantity = 2, dp_entry_price = 50, dp_current_price = 50,
      dp_liquidation_price = 41, dp_unrealized_pnl = 0, dp_leverage = 5, dp_side = Short,
      dp_stop_loss = None, dp_profit_target = None, dp_sl_order_id = None,
      dp_tp_order_id = None, dp_entry_order_id = ''o2'', dp_opened_at = 0,
      dp_peak_pnl_percent = None\<rparr>"

text \<open>
  A tick at a given time on a given exchange position list: the ticker throws, every
  order is answered with an id, \<open>getOrder\<close> never answers, the multiplier is 1, the
  strategy is the balanced one with a maximum leverage of 10.
\<close>

definition exampleSyncEnv :: "int \<Rightarrow> sync_env" where
  "exampleSyncEnv now = \<lparr>se_markPrice = (\<lambda>s. None), se_now = now, se_nowText = ''now''\<rparr>"

definition exampleTickEnv :: "position list \<Rightarrow> int \<Rightarrow> tick_env" where
  "exampleTickEnv raw now =
     \<lparr>tk_sync = exampleSyncEnv now,
      tk_rawPositions = raw,
      tk_placeOrder = (\<lambda>req. Some \<lparr>ord_id = ''77'', ord_status = ''open'', ord_price = 0,
                                   ord_filled = 0\<rparr>),
      tk_getOrder = (\<lambda>i n. None),
      tk_quantoMultiplier = (\<lambda>s. 1),
      tk_maxLeverage = 10, tk_strategy = Balanced, tk_nowText = ''2025-01-02''\<rparr>"

text \<open>
  The world of an open request: reversal flag and account value given, no open position,
  account peak 1000, exchange other than Binance, price 100, multiplier 1, at most 5
  positions, maximum leverage 10, no new position from a drawdown of 15 percent.
\<close>

definition exampleOpenEnv :: "bool \<Rightarrow> real \<Rightarrow> open_env" where
  "exampleOpenEnv reverse totalBalance =
     \<lparr>oe_REVERSE_POSITIONS = reverse, oe_EXCHANGE_binance = False, oe_MAX_LEVERAGE = 10,
      oe_MAX_POSITIONS = 5, oe_ACCOUNT_DRAWDOWN_NO_NEW_POSITION_PERCENT = 15,
      oe_positions = [], oe_totalBalance = totalBalance, oe_availableBalance = totalBalance,
      oe_peak = Some 1000, oe_normalizeSymbol = (\<lambda>s. s @ ''_USDT''),
      oe_quantoMultiplier = (\<lambda>c. 1), oe_lastPrice = 100, oe_orderSizeMin = 1,
      oe_orderSizeMax = 1000000\<rparr>"

text \<open>The same world on Binance with a last price of 0.\<close>

definition zeroPriceBinanceEnv :: open_env where
  "zeroPriceBinanceEnv =
     (exampleOpenEnv False 1000)\<lparr>oe_EXCHANGE_binance := True, oe_lastPrice := 0\<rparr>"

section \<open>Properties\<close>

subsection \<open>Rounding to double precision\<close>

text \<open>The exponent is the floor of the binary logarithm, and \<open>binary64\<close> is the rounding on
  the grid of that exponent.\<close>

lemma powr_int_nonneg: "0 \<le> k \<Longrightarrow> 2 powr real_of_int k = 2 ^ nat k"
proof -
  assume "0 \<le> k"
  then have "real_of_int k = real (nat k)" by simp
  then have "2 powr real_of_int k = 2 powr real (nat k)" by (simp only:)
  also have "\<dots> = 2 ^ nat k" by (simp add: powr_realpow)
  finally show ?thesis .
qed

lemma powr_int_nonpos: "k \<le> 0 \<Longrightarrow> 2 powr real_of_int k = 1 / 2 ^ nat (- k)"
proof -
  assume "k \<le> 0"
  then have "real_of_int k = - real (nat (- k))" by simp
  then have "2 powr real_of_int k = 2 powr (- real (nat (- k)))" by (simp only:)
  also have "\<dots> = 1 / 2 ^ nat (- k)" by (simp add: powr_minus powr_realpow divide_inverse)
  finally show ?thesis .
qed

lemma pow2_powr: "pow2 k = 2 powr real_of_int k"
  by (cases "0 \<le> k") (simp_all add: pow2_def powr_int_nonneg powr_int_nonpos)

lemma binaryExponent_bounds:
  assumes "0 < x"
  shows "2 powr real_of_int (binaryExponent x) \<le> x"
    and "x < 2 powr real_of_int (binaryExponent x + 1)"
proof -
  have "2 powr real_of_int (binaryExponent x) \<le> x
        \<and> x < 2 powr real_of_int (binaryExponent x + 1)"
  proof (cases "1 \<le> x")
    case True
    define n where "n = \<lfloor>x\<rfloor>"
    define k where "k = bitlen n - 1"
    have n: "0 < n" using True by (simp add: n_def)
    have b1: "0 \<le> k" using n by (auto simp: bitlen_alt_def k_def)
    have b: "2 ^ nat k \<le> n" "n < 2 ^ nat (k + 1)"
      using bitlen_bounds[OF n] by (simp_all add: k_def)
    have e: "binaryExponent x = k" using True by (simp add: binaryExponent_def n_def k_def)
    have "(2::real) ^ nat k \<le> real_of_int n"
      using b(1) of_int_le_iff[of "2 ^ nat k" n, where ?'a = real] by simp
    moreover have "real_of_int n \<le> x" by (simp add: n_def)
    ultimately have "(2::real) ^ nat k \<le> x" by linarith
    then have lo: "2 powr real_of_int k \<le> x"
      unfolding powr_int_nonneg[OF b1] .
    have "n + 1 \<le> 2 ^ nat (k + 1)" using b(2) by simp
    then have "real_of_int (n + 1) \<le> (2::real) ^ nat (k + 1)"
      using of_int_le_iff[of "n + 1" "2 ^ nat (k + 1)", where ?'a = real] by simp
    moreover have "x < real_of_int (n + 1)" by (simp add: n_def)
    ultimately have "x < (2::real) ^ nat (k + 1)" by linarith
    moreover have "0 \<le> k + 1" using b1 by simp
    ultimately have hi: "x < 2 powr real_of_int (k + 1)"
      using powr_int_nonneg[of "k + 1"] by simp
    show ?thesis unfolding e using lo hi by simp
  next
    case False
    then have x1: "x < 1" by simp
    define a where "a = \<lceil>1 / x\<rceil> - 1"
    define j where "j = bitlen a"
    have "1 < 1 / x" using assms x1 by simp
    then have a: "0 < a" unfolding a_def by linarith
    have b1: "1 \<le> j" using a by (auto simp: bitlen_alt_def j_def)
    have b: "2 ^ nat (j - 1) \<le> a" "a < 2 ^ nat j"
      using bitlen_bounds[OF a] by (simp_all add: j_def)
    have e: "binaryExponent x = - j" using False by (simp add: binaryExponent_def a_def j_def)
    have c1: "real_of_int a < 1 / x" unfolding a_def by linarith
    have c2: "1 / x \<le> real_of_int (a + 1)" unfolding a_def by simp
    have "a + 1 \<le> 2 ^ nat j" using b(2) by simp
    then have "real_of_int (a + 1) \<le> (2::real) ^ nat j"
      using of_int_le_iff[of "a + 1" "2 ^ nat j", where ?'a = real] by simp
    then have "1 / x \<le> 2 ^ nat j" using c2 by linarith
    then have "1 / 2 ^ nat j \<le> x" using assms by (simp add: field_simps)
    moreover have "2 powr real_of_int (- j) = 1 / 2 ^ nat j"
      using powr_int_nonpos[of "- j"] b1 by simp
    ultimately have lo: "2 powr real_of_int (- j) \<le> x" by simp
    have "(2::real) ^ nat (j - 1) \<le> real_of_int a"
      using b(1) of_int_le_iff[of "2 ^ nat (j - 1)" a, where ?'a = real] by simp
    then have "2 ^ nat (j - 1) < 1 / x" using c1 by linarith
    then have "x < 1 / 2 ^ nat (j - 1)" using assms by (simp add: field_simps)
    moreover have "2 powr real_of_int (- j + 1) = 1 / 2 ^ nat (j - 1)"
      using powr_int_nonpos[of "- j + 1"] b1 by simp
    ultimately have hi: "x < 2 powr real_of_int (- j + 1)" by simp
    show ?thesis unfolding e using lo hi by simp
  qed
  then show "2 powr real_of_int (binaryExponent x) \<le> x"
    and "x < 2 powr real_of_int (binaryExponent x + 1)" by simp_all
qed

lemma binade:
  assumes "2 powr real_of_int k \<le> \<bar>x\<bar>" "\<bar>x\<bar> < 2 powr real_of_int (k + 1)"
  shows "\<lfloor>log 2 \<bar>x\<bar>\<rfloor> = k"
proof -
  have pos: "0 < \<bar>x\<bar>" using assms(1) by (smt (verit) powr_gt_zero)
  show ?thesis using assms pos
    by (subst floor_log_eq_powr_iff) (simp_all add: add.commute)
qed

lemma binaryExponent_log: "x \<noteq> 0 \<Longrightarrow> binaryExponent \<bar>x\<bar> = \<lfloor>log 2 \<bar>x\<bar>\<rfloor>"
  using binade[of "binaryExponent \<bar>x\<bar>" x] binaryExponent_bounds[of "\<bar>x\<bar>"] by simp

lemma binary64_log:
  "binary64 x =
     (if x = 0 then 0
      else real_of_int (roundTiesToEven (x / 2 powr (real_of_int \<lfloor>log 2 \<bar>x\<bar>\<rfloor> - 52)))
             * 2 powr (real_of_int \<lfloor>log 2 \<bar>x\<bar>\<rfloor> - 52))"
  by (simp add: binary64_def Let_def pow2_powr binaryExponent_log)

lemma binary64_zero: "binary64 0 = 0"
  by (simp add: binary64_def)

lemma roundTiesToEven_of_int: "roundTiesToEven (real_of_int n) = n"
  by (simp add: roundTiesToEven_def)

lemma roundTiesToEven_cases:
  "roundTiesToEven r = \<lfloor>r\<rfloor> \<and> r - real_of_int \<lfloor>r\<rfloor> \<le> 1 / 2
   \<or> roundTiesToEven r = \<lfloor>r\<rfloor> + 1 \<and> r - real_of_int \<lfloor>r\<rfloor> \<ge> 1 / 2"
  unfolding roundTiesToEven_def Let_def by auto

lemma roundTiesToEven_ge: "real_of_int n \<le> r \<Longrightarrow> n \<le> roundTiesToEven r"
proof -
  assume "real_of_int n \<le> r"
  then have "n \<le> \<lfloor>r\<rfloor>" by (simp add: le_floor_iff)
  then show ?thesis using roundTiesToEven_cases[of r] by auto
qed

lemma roundTiesToEven_le: "r \<le> real_of_int n \<Longrightarrow> roundTiesToEven r \<le> n"
proof -
  assume a: "r \<le> real_of_int n"
  have f: "\<lfloor>r\<rfloor> \<le> n" using a by (simp add: floor_le_iff) 
  show ?thesis
  proof (cases "\<lfloor>r\<rfloor> = n")
    case True
    then have "r - real_of_int \<lfloor>r\<rfloor> \<le> 0" using a by simp
    then show ?thesis using roundTiesToEven_cases[of r] True by auto
  next
    case False
    then have "\<lfloor>r\<rfloor> + 1 \<le> n" using f by simp
    then show ?thesis using roundTiesToEven_cases[of r] by auto
  qed
qed

lemma roundTiesToEven_below: "r < real_of_int n - 1 / 2 \<Longrightarrow> roundTiesToEven r \<le> n - 1"
proof -
  assume a: "r < real_of_int n - 1 / 2"
  have "real_of_int \<lfloor>r\<rfloor> \<le> r" by simp
  then have "real_of_int \<lfloor>r\<rfloor> < real_of_int n" using a by linarith
  then have f: "\<lfloor>r\<rfloor> \<le> n - 1" by simp
  show ?thesis
  proof (cases "\<lfloor>r\<rfloor> = n - 1")
    case True
    then have "r - real_of_int \<lfloor>r\<rfloor> < 1 / 2" using a by simp
    then show ?thesis using roundTiesToEven_cases[of r] True by auto
  next
    case False
    then have "\<lfloor>r\<rfloor> + 1 \<le> n - 1" using f by simp
    then show ?thesis using roundTiesToEven_cases[of r] by auto
  qed
qed

lemma binary64_eval:
  assumes "2 powr real_of_int k \<le> \<bar>x\<bar>" "\<bar>x\<bar> < 2 powr real_of_int (k + 1)"
  shows "binary64 x = real_of_int (roundTiesToEven (x / 2 powr (real_of_int k - 52)))
                        * 2 powr (real_of_int k - 52)"
proof -
  have "x \<noteq> 0" using assms(1) by (smt (verit) powr_gt_zero)
  then show ?thesis by (simp add: binary64_log binade[OF assms])
qed

lemma binade_ex:
  assumes "0 < x"
  shows "2 powr real_of_int \<lfloor>log 2 x\<rfloor> \<le> x \<and> x < 2 powr real_of_int (\<lfloor>log 2 x\<rfloor> + 1)"
  using floor_log_eq_powr_iff[of x 2 "\<lfloor>log 2 x\<rfloor>"] assms by (simp add: add.commute)

lemma binary64_bounds:
  assumes "0 < x" "2 powr real_of_int k \<le> x" "x < 2 powr real_of_int (k + 1)"
  shows "2 powr real_of_int k \<le> binary64 x" "binary64 x \<le> 2 powr real_of_int (k + 1)"
proof -
  define u :: real where "u = 2 powr (real_of_int k - 52)"
  have u: "0 < u" by (simp add: u_def)
  have ev: "binary64 x = real_of_int (roundTiesToEven (x / u)) * u"
    unfolding u_def using assms by (intro binary64_eval) simp_all
  have lo: "2 powr real_of_int k = real_of_int (2 ^ 52) * u"
    unfolding u_def by (simp add: powr_diff)
  have hi: "2 powr real_of_int (k + 1) = real_of_int (2 ^ 53) * u"
    unfolding u_def by (simp add: powr_diff powr_add)
  have "real_of_int (2 ^ 52) \<le> x / u" using assms(2) u unfolding lo by (simp add: pos_le_divide_eq)
  then have "2 ^ 52 \<le> roundTiesToEven (x / u)" by (rule roundTiesToEven_ge)
  then have "real_of_int (2 ^ 52) \<le> real_of_int (roundTiesToEven (x / u))" by linarith
  then show "2 powr real_of_int k \<le> binary64 x"
    unfolding lo ev using u by (simp only: mult_le_cancel_right_pos)
  have "x / u \<le> real_of_int (2 ^ 53)" using assms(3) u unfolding hi by (simp add: pos_divide_le_eq)
  then have "roundTiesToEven (x / u) \<le> 2 ^ 53" by (rule roundTiesToEven_le)
  then have "real_of_int (roundTiesToEven (x / u)) \<le> real_of_int (2 ^ 53)" by linarith
  then show "binary64 x \<le> 2 powr real_of_int (k + 1)"
    unfolding hi ev using u by (simp only: mult_le_cancel_right_pos)
qed

lemma binary64_pos: "0 < x \<Longrightarrow> 0 < binary64 x"
proof -
  assume x: "0 < x"
  have "2 powr real_of_int \<lfloor>log 2 x\<rfloor> \<le> binary64 x"
    using binade_ex[OF x] x by (intro binary64_bounds) simp_all
  moreover have "(0::real) < 2 powr real_of_int \<lfloor>log 2 x\<rfloor>" by simp
  ultimately show ?thesis by linarith
qed

lemma binary64_below:
  assumes "0 < x" "2 powr real_of_int k \<le> x" "x < 2 powr real_of_int (k + 1)"
    and "x < (real_of_int N - 1 / 2) * 2 powr (real_of_int k - 52)"
  shows "binary64 x \<le> (real_of_int N - 1) * 2 powr (real_of_int k - 52)"
proof -
  define u :: real where "u = 2 powr (real_of_int k - 52)"
  have u: "0 < u" by (simp add: u_def)
  have ev: "binary64 x = real_of_int (roundTiesToEven (x / u)) * u"
    unfolding u_def using assms by (intro binary64_eval) simp_all
  have "x / u < real_of_int N - 1 / 2"
    using assms(4) u unfolding u_def[symmetric] by (simp add: pos_divide_less_eq)
  then have "roundTiesToEven (x / u) \<le> N - 1" by (rule roundTiesToEven_below)
  then have "real_of_int (roundTiesToEven (x / u)) \<le> real_of_int N - 1" by linarith
  then show ?thesis unfolding ev u_def[symmetric] using u by (simp only: mult_le_cancel_right_pos)
qed

lemma binary64_grid_below:
  assumes "0 < x" "2 powr real_of_int k \<le> x" "x < 2 powr real_of_int (k + 1)"
    and "binary64 x < real_of_int N * 2 powr (real_of_int k - 52)"
  shows "binary64 x \<le> (real_of_int N - 1) * 2 powr (real_of_int k - 52)"
proof -
  define u :: real where "u = 2 powr (real_of_int k - 52)"
  have u: "0 < u" by (simp add: u_def)
  have ev: "binary64 x = real_of_int (roundTiesToEven (x / u)) * u"
    unfolding u_def using assms by (intro binary64_eval) simp_all
  have "real_of_int (roundTiesToEven (x / u)) < real_of_int N"
    using assms(4) u unfolding ev u_def[symmetric] by (simp only: mult_less_cancel_right_pos)
  then have "roundTiesToEven (x / u) \<le> N - 1" by linarith
  then have "real_of_int (roundTiesToEven (x / u)) \<le> real_of_int N - 1" by linarith
  then show ?thesis unfolding ev u_def[symmetric] using u by (simp only: mult_le_cancel_right_pos)
qed

lemma powr_int_less: "2 powr real_of_int k < 2 powr real_of_int j \<longleftrightarrow> k < j"
  by simp

lemma binary64_of_pos_int:
  assumes "0 < m" "m < 2 ^ 53"
  shows "binary64 (real_of_int m) = real_of_int m"
proof -
  define x where "x = real_of_int m"
  define k where "k = \<lfloor>log 2 x\<rfloor>"
  have x: "0 < x" using assms by (simp add: x_def)
  have b: "2 powr real_of_int k \<le> x" "x < 2 powr real_of_int (k + 1)"
    using binade_ex[OF x] by (simp_all add: k_def)
  have "x < 2 powr real_of_int 53" using assms(2) by (simp add: x_def) 
  then have "2 powr real_of_int k < 2 powr real_of_int 53" using b(1) by linarith
  then have k53: "k < 53" by (simp only: powr_int_less)
  have "1 \<le> x" using assms(1) by (simp add: x_def)
  then have "2 powr real_of_int 0 < 2 powr real_of_int (k + 1)" using b(2) by simp
  then have k0: "0 < k + 1" by (simp only: powr_int_less)
  define j where "j = nat (52 - k)"
  have j: "real_of_int k - 52 = - real j" using k53 by (simp add: j_def)
  have u: "2 powr (real_of_int k - 52) = 1 / 2 ^ j"
    unfolding j by (simp add: powr_minus powr_realpow divide_inverse)
  have ev: "binary64 x = real_of_int (roundTiesToEven (x / 2 powr (real_of_int k - 52)))
                          * 2 powr (real_of_int k - 52)"
    using b x by (intro binary64_eval) simp_all
  have q: "x / (1 / 2 ^ j) = real_of_int (m * 2 ^ j)" by (simp add: x_def)
  have "binary64 x = real_of_int (m * 2 ^ j) * (1 / 2 ^ j)"
    unfolding ev u q roundTiesToEven_of_int ..
  then show ?thesis by (simp add: x_def)
qed

lemma binary64_numeral:
  "(numeral w :: int) < 2 ^ 53 \<Longrightarrow> binary64 (numeral w) = numeral w"
  using binary64_of_pos_int[of "numeral w"] by simp

lemma binary64_one: "binary64 1 = 1"
  using binary64_of_pos_int[of 1] by simp

lemma binary64_below_100:
  assumes "0 < x" "x < 100 - 1 / 2 ^ 47"
  shows "binary64 x \<le> 100 - 1 / 2 ^ 46"
proof -
  define k where "k = \<lfloor>log 2 x\<rfloor>"
  have b: "2 powr real_of_int k \<le> x" "x < 2 powr real_of_int (k + 1)"
    using binade_ex[OF assms(1)] by (simp_all add: k_def)
  have "x < 2 powr real_of_int 7" using assms(2) by simp
  then have "2 powr real_of_int k < 2 powr real_of_int 7" using b(1) by linarith
  then have k7: "k < 7" by (simp only: powr_int_less)
  show ?thesis
  proof (cases "k = 6")
    case True
    have "binary64 x \<le> (real_of_int (100 * 2 ^ 46) - 1) * 2 powr (real_of_int k - 52)"
      using assms b by (intro binary64_below) (simp_all add: True powr_minus field_simps)
    then show ?thesis by (simp add: True powr_minus field_simps)
  next
    case False
    then have "k + 1 \<le> 6" using k7 by simp
    then have "2 powr real_of_int (k + 1) \<le> 2 powr real_of_int 6"
      by (simp only: powr_le_cancel_iff)
    then have "binary64 x \<le> 64" using binary64_bounds(2)[OF assms(1) b] by simp
    then show ?thesis by simp
  qed
qed

lemma binary64_range_below_100:
  assumes "0 < x" "binary64 x < 100"
  shows "binary64 x \<le> 100 - 1 / 2 ^ 46"
proof -
  define k where "k = \<lfloor>log 2 x\<rfloor>"
  have b: "2 powr real_of_int k \<le> x" "x < 2 powr real_of_int (k + 1)"
    using binade_ex[OF assms(1)] by (simp_all add: k_def)
  have "2 powr real_of_int k < 2 powr real_of_int 7"
    using binary64_bounds(1)[OF assms(1) b] assms(2) by simp
  then have k7: "k < 7" by (simp only: powr_int_less)
  show ?thesis
  proof (cases "k = 6")
    case True
    have "binary64 x \<le> (real_of_int (100 * 2 ^ 46) - 1) * 2 powr (real_of_int k - 52)"
      using assms b by (intro binary64_grid_below) (simp_all add: True powr_minus field_simps)
    then show ?thesis by (simp add: True powr_minus field_simps)
  next
    case False
    then have "k + 1 \<le> 6" using k7 by simp
    then have "2 powr real_of_int (k + 1) \<le> 2 powr real_of_int 6"
      by (simp only: powr_le_cancel_iff)
    then have "binary64 x \<le> 64" using binary64_bounds(2)[OF assms(1) b] by simp
    then show ?thesis by simp
  qed
qed

lemma binary64_below_1:
  assumes "0 < z" "z < 1 - 1 / 2 ^ 54"
  shows "binary64 z < 1"
proof -
  define k where "k = \<lfloor>log 2 z\<rfloor>"
  have b: "2 powr real_of_int k \<le> z" "z < 2 powr real_of_int (k + 1)"
    using binade_ex[OF assms(1)] by (simp_all add: k_def)
  have "z < 2 powr real_of_int 0" using assms(2) by simp
  then have "2 powr real_of_int k < 2 powr real_of_int 0" using b(1) by linarith
  then have k0: "k < 0" by (simp only: powr_int_less)
  show ?thesis
  proof (cases "k = - 1")
    case True
    have "binary64 z \<le> (real_of_int (2 ^ 53) - 1) * 2 powr (real_of_int k - 52)"
      using assms b by (intro binary64_below) (simp_all add: True powr_minus field_simps)
    then show ?thesis by (simp add: True powr_minus field_simps)
  next
    case False
    then have "k + 1 \<le> - 1" using k0 by simp
    then have "2 powr real_of_int (k + 1) \<le> 2 powr real_of_int (- 1)"
      by (simp only: powr_le_cancel_iff)
    then have "binary64 z \<le> 1 / 2" using binary64_bounds(2)[OF assms(1) b] by (simp add: powr_minus)
    then show ?thesis by simp
  qed
qed

lemma closeSize_zero:
  assumes "0 < q" "0 < p" "binary64 (q * p) < 100"
  shows "\<lfloor>binary64 (binary64 (q * p) / 100)\<rfloor> = 0"
proof -
  have x: "0 < q * p" using assms by simp
  have y: "0 < binary64 (q * p)" using x by (rule binary64_pos)
  have "binary64 (q * p) \<le> 100 - 1 / 2 ^ 46" using x assms(3) by (rule binary64_range_below_100)
  then have "binary64 (q * p) / 100 < 1 - 1 / 2 ^ 54" by simp
  then have "binary64 (binary64 (q * p) / 100) < 1" using y by (intro binary64_below_1) simp_all
  moreover have "0 < binary64 (binary64 (q * p) / 100)" using y by (intro binary64_pos) simp
  ultimately show ?thesis by linarith
qed

lemma binary64_half: "binary64 (1 / 2) = 1 / 2"
  by (subst binary64_eval[where k = "- 1"]) (simp_all add: roundTiesToEven_def powr_minus)

lemmas binary64_exact = binary64_zero binary64_one binary64_numeral binary64_half

subsection \<open>The balanced strategy at a maximum leverage of 10\<close>

lemma balanced10:
  "getStrategyParams 10 Balanced =
     \<lparr>leverageMin = 6, leverageMax = 9, stopLoss_low = - 3, stopLoss_mid = - 2.5,
      stopLoss_high = - 2\<rparr>"
  by (simp add: getStrategyParams_def jsCeil_def)

lemma stopLoss10: "stopLossPercentOf (getStrategyParams 10 Balanced) 10 = - 2"
  by (simp add: balanced10 stopLossPercentOf_def jsFloor_def)

lemmas rule_defs = riskCheck_def ruleHoldingTime_def ruleStopLoss_def ruleTrailing_def
  rulePeakDrawdown_def trailingStopPercentOf_def

subsection \<open>The pnl check before a close trade is written\<close>

lemma closePnlCheck_spec:
  "closePnlCheck sd entry exit sz mult pnl =
     (spec_correctPnl sd entry exit sz mult 0.0005 pnl,
      spec_computeFee entry sz mult 0.0005 + spec_computeFee exit sz mult 0.0005)"
  by (cases sd) (simp_all add: closePnlCheck_def spec_correctPnl_def spec_computeNetPnl_def
      spec_computeGrossPnl_def spec_computeFee_def Let_def algebra_simps)

lemma closeNetPnl_spec:
  "closeNetPnl sd entry exit sz mult = spec_computeNetPnl sd entry exit sz mult 0.0005"
  by (cases sd) (simp_all add: closeNetPnl_def spec_computeNetPnl_def
      spec_computeGrossPnl_def spec_computeFee_def Let_def algebra_simps)

lemma spec_correctPnl_expected:
  "spec_correctPnl sd entry exit q mult rate (spec_computeNetPnl sd entry exit q mult rate)
     = spec_computeNetPnl sd entry exit q mult rate"
  by (simp add: spec_correctPnl_def Let_def)

text \<open>
  The polling loop of closePositionTool keeps the pnl equal to the net pnl of the price
  and size it has settled on. Computation induction on the loop.
\<close>

lemma closePoll_pnl:
  "cf_pnl st = closeNetPnl sd entry (cf_exitPrice st) (cf_closeSize st) mult \<Longrightarrow>
   cf_pnl (closePoll g sd entry cur sz mult retry st)
     = closeNetPnl sd entry (cf_exitPrice (closePoll g sd entry cur sz mult retry st))
         (cf_closeSize (closePoll g sd entry cur sz mult retry st)) mult"
proof (induction g sd entry cur sz mult retry st rule: closePoll.induct)
  case (1 getOrder sd entryPrice currentPrice closeSize mult retryCount st)
  show ?case
  proof (cases "retryCount < 3")
    case False
    then show ?thesis using "1.prems" by (subst (1 2 3) closePoll.simps) simp
  next
    case True
    show ?thesis
    proof (cases "getOrder retryCount")
      case (Some d)
      then show ?thesis using True by (subst (1 2 3) closePoll.simps) (simp add: Let_def)
    next
      case None
      show ?thesis
      proof (cases "3 \<le> Suc retryCount")
        case T3: True
        let ?st = "\<lparr>cf_exitPrice = currentPrice, cf_closeSize = closeSize,
                    cf_status = cf_status st,
                    cf_pnl = closeNetPnl sd entryPrice currentPrice closeSize mult\<rparr>"
        let ?r = "closePoll getOrder sd entryPrice currentPrice closeSize mult (Suc retryCount) ?st"
        have "cf_pnl ?r = closeNetPnl sd entryPrice (cf_exitPrice ?r) (cf_closeSize ?r) mult"
          using True None T3 by (intro "1.IH"(1)) simp_all
        then show ?thesis using True None T3 by (subst (1 2 3) closePoll.simps) simp
      next
        case F3: False
        let ?r = "closePoll getOrder sd entryPrice currentPrice closeSize mult (Suc retryCount) st"
        have "cf_pnl ?r = closeNetPnl sd entryPrice (cf_exitPrice ?r) (cf_closeSize ?r) mult"
          using True None F3 "1.prems" by (intro "1.IH"(2)) simp_all
        then show ?thesis using True None F3 by (subst (1 2 3) closePoll.simps) simp
      qed
    qed
  qed
qed

text \<open>Hence the row closePositionTool writes always carries the net pnl of its own price
  and quantity: there the check never replaces anything.\<close>

lemma closeTradeRow_net:
  "t_pnl (closeTradeRow env m symbol sd entry cur lev sz order)
     = Some (spec_computeNetPnl sd entry
               (t_price (closeTradeRow env m symbol sd entry cur lev sz order))
               (t_quantity (closeTradeRow env m symbol sd entry cur lev sz order))
               m 0.0005)"
proof -
  define st0 where "st0 = \<lparr>cf_exitPrice = cur, cf_closeSize = sz, cf_status = ord_status order,
                             cf_pnl = closeNetPnl sd entry cur sz m\<rparr>"
  define st where "st = (if ord_id order \<noteq> []
                         then closePoll (ce_getOrder env) sd entry cur sz m 0 st0 else st0)"
  have inv0: "cf_pnl st0 = closeNetPnl sd entry (cf_exitPrice st0) (cf_closeSize st0) m"
    by (simp add: st0_def)
  have inv: "cf_pnl st = closeNetPnl sd entry (cf_exitPrice st) (cf_closeSize st) m"
    unfolding st_def using inv0 closePoll_pnl[OF inv0] by simp
  have row:
    "t_pnl (closeTradeRow env m symbol sd entry cur lev sz order)
       = Some (fst (closePnlCheck sd entry (cf_exitPrice st) (cf_closeSize st) m (cf_pnl st)))"
    "t_price (closeTradeRow env m symbol sd entry cur lev sz order) = cf_exitPrice st"
    "t_quantity (closeTradeRow env m symbol sd entry cur lev sz order) = cf_closeSize st"
    unfolding closeTradeRow_def Let_def st_def st0_def by simp_all
  show ?thesis
    unfolding row
    by (simp add: closePnlCheck_spec inv closeNetPnl_spec spec_correctPnl_expected)
qed

text \<open>
  The polling loop of the forced liquidation either leaves its state as it was, or ends
  on a finished order with the two fees and the net pnl of that order's price and
  quantity. Computation induction on the loop.
\<close>

lemma forcedPoll_result:
  "forcedPoll g sd entry mult retry st = st
   \<or> (ff_filled (forcedPoll g sd entry mult retry st)
      \<and> ff_totalFee (forcedPoll g sd entry mult retry st)
          = spec_computeFee entry (ff_quantity (forcedPoll g sd entry mult retry st)) mult 0.0005
            + spec_computeFee (ff_exitPrice (forcedPoll g sd entry mult retry st))
                (ff_quantity (forcedPoll g sd entry mult retry st)) mult 0.0005
      \<and> ff_pnl (forcedPoll g sd entry mult retry st)
          = spec_computeNetPnl sd entry (ff_exitPrice (forcedPoll g sd entry mult retry st))
              (ff_quantity (forcedPoll g sd entry mult retry st)) mult 0.0005)"
proof (induction g sd entry mult retry st rule: forcedPoll.induct)
  case (1 getOrder sd entryPrice quantoMultiplier retry st)
  show ?case
  proof (cases "retry < 5")
    case False
    then show ?thesis by (subst forcedPoll.simps) simp
  next
    case True
    show ?thesis
    proof (cases "getOrder retry")
      case None
      have eq: "forcedPoll getOrder sd entryPrice quantoMultiplier retry st
              = forcedPoll getOrder sd entryPrice quantoMultiplier (Suc retry) st"
        using True None by (subst forcedPoll.simps) simp
      show ?thesis unfolding eq using "1.IH"(1)[OF True None] .
    next
      case (Some d)
      show ?thesis
      proof (cases "ord_status d = ''finished''")
        case False
        have eq: "forcedPoll getOrder sd entryPrice quantoMultiplier retry st
                = forcedPoll getOrder sd entryPrice quantoMultiplier (Suc retry) st"
          using True Some False by (subst forcedPoll.simps) simp
        show ?thesis unfolding eq using "1.IH"(2)[OF True Some False] .
      next
        case fin: True
        have eq: "forcedPoll getOrder sd entryPrice quantoMultiplier retry st
                = \<lparr>ff_exitPrice = ord_price d, ff_quantity = ord_filled d,
                   ff_pnl = closeNetPnl sd entryPrice (ord_price d) (ord_filled d) quantoMultiplier,
                   ff_totalFee = entryPrice * ord_filled d * quantoMultiplier * 0.0005
                                 + ord_price d * ord_filled d * quantoMultiplier * 0.0005,
                   ff_filled = True\<rparr>"
          using True Some fin by (subst forcedPoll.simps) (simp add: Let_def closeNetPnl_def)
        show ?thesis unfolding eq by (simp add: closeNetPnl_spec spec_computeFee_def)
      qed
    qed
  qed
qed

text \<open>
  C1. The code at a long position of one contract, leverage 1, entry 100, whose price
  has fallen to 40, in a tick whose closing order is not reported finished in the five
  polls (balanced strategy, maximum leverage 10, multiplier 1). The stop-loss rule closes
  the position. The polling loop leaves the pnl at 0 and the fee total at 0; the check
  finds the pnl 0 nearer to the notional value 40 than to its expected value, which with
  a fee total of 0 is the gross pnl -60, and replaces it. The row is written with pnl -60
  and fee 0. The rule of the specification, whose expected value is the net pnl, gives
  -60.07 for the same supplied pnl, with fees of 0.07.
\<close>

theorem forced_liquidation_writes_gross_pnl:
  "forcedRiskControl (exampleTickEnv [btcLong 1 100 40] 300000)
      \<lparr>lg_positions = [btcRow None], lg_trades = []\<rparr>
     = ([(''BTC'', True, StopLoss)],
        \<lparr>lg_positions = [],
         lg_trades = [\<lparr>t_order_id = ''77'', t_symbol = ''BTC'', t_side = Long,
                       t_type = CloseTrade, t_price = 40, t_quantity = 1, t_leverage = 1,
                       t_pnl = Some (- 60), t_fee = 0, t_timestamp = ''2025-01-02'',
                       t_status = ''pending'', t_id = 1\<rparr>]\<rparr>)
   \<and> spec_correctPnl Long 100 40 1 1 0.0005 0 = - 60.07
   \<and> spec_computeFee 100 1 1 0.0005 + spec_computeFee 40 1 1 0.0005 = 0.07"
proof (intro conjI)
  have sl: "stopLossPercentOf (getStrategyParams 10 Balanced) 1 = - 3"
    by (simp add: balanced10 stopLossPercentOf_def jsFloor_def)
  show "forcedRiskControl (exampleTickEnv [btcLong 1 100 40] 300000)
      \<lparr>lg_positions = [btcRow None], lg_trades = []\<rparr>
     = ([(''BTC'', True, StopLoss)],
        \<lparr>lg_positions = [],
         lg_trades = [\<lparr>t_order_id = ''77'', t_symbol = ''BTC'', t_side = Long,
                       t_type = CloseTrade, t_price = 40, t_quantity = 1, t_leverage = 1,
                       t_pnl = Some (- 60), t_fee = 0, t_timestamp = ''2025-01-02'',
                       t_status = ''pending'', t_id = 1\<rparr>]\<rparr>)"
    by (simp add: forcedRiskControl_def exampleTickEnv_def exampleSyncEnv_def btcLong_def
        btcRow_def getPositions_def dbPositionsMap_def syncPositionsFromGate_def syncRow_def
        riskStep_def pnlPercentOf_def updatePeak_def holdingHoursOf_def sl rule_defs
        numOrNull_def strOrNull_def forcedLiquidation_def forcedTradeRow_def
        forcedPnlCheck_def forcedPoll.simps insertTrade_def)
  show "spec_correctPnl Long 100 40 1 1 0.0005 0 = - 60.07"
    by (simp add: spec_correctPnl_def spec_computeNetPnl_def spec_computeGrossPnl_def
        spec_computeFee_def)
  show "spec_computeFee 100 1 1 0.0005 + spec_computeFee 40 1 1 0.0005 = 0.07"
    by (simp add: spec_computeFee_def)
qed

subsection \<open>The four rules of the forced risk check\<close>

text \<open>
  C2. The code at a position held for 40 hours whose leveraged PnL is -5 percent (long,
  leverage 10, entry 100, price 99.5, balanced strategy, maximum leverage 10): the
  holding-time rule sets its reason, and the stop-loss rule, which is not guarded by
  \<open>shouldClose\<close> as the two rules after it are, replaces it.
\<close>

theorem hold_time_reason_overwritten:
  "ruleHoldingTime (holdingHoursOf (40 * 3600000) 0) = (True, MaxHoldTime)
   \<and> riskCheck (getStrategyParams 10 Balanced) 10 (pnlPercentOf Long 100 99.5 10) 0
       (holdingHoursOf (40 * 3600000) 0) = (True, StopLoss)"
  by (simp add: stopLoss10 pnlPercentOf_def holdingHoursOf_def rule_defs)

text \<open>The trailing rule takes its floor from the current PnL percent, which is never
  below that floor: the rule changes nothing, whatever the position.\<close>

lemma ruleTrailing_never_fires: "ruleTrailing pnlPercent stopLossPercent st = st"
  by (auto simp: ruleTrailing_def trailingStopPercentOf_def Let_def)

lemma riskCheck_never_trailing:
  "snd (riskCheck params leverage pnlPercent peakPnlPercent holdingHours) \<noteq> TrailingStop"
  by (simp add: riskCheck_def ruleTrailing_never_fires rulePeakDrawdown_def ruleStopLoss_def
      ruleHoldingTime_def Let_def)

text \<open>
  C5. The code at the scenario of the claim (long, leverage 10, entry 100, balanced
  strategy, maximum leverage 10): at price 100.8 the PnL is 8 percent and nothing closes;
  at price 100.2 the PnL is 2 percent, the trailing rule leaves the decision as it finds
  it, and with the peak of 8 percent it is the peak-drawdown rule that closes. In two
  ticks on these prices the sync before the second check has emptied the peak, and the
  second tick closes nothing.
\<close>

theorem trailing_stop_scenario:
  "riskCheck (getStrategyParams 10 Balanced) 10 (pnlPercentOf Long 100 100.8 10) 8
     (holdingHoursOf 300000 0) = (False, NoReason)
   \<and> ruleTrailing (pnlPercentOf Long 100 100.2 10)
       (stopLossPercentOf (getStrategyParams 10 Balanced) 10) (False, NoReason)
       = (False, NoReason)
   \<and> riskCheck (getStrategyParams 10 Balanced) 10 (pnlPercentOf Long 100 100.2 10) 8
       (holdingHoursOf 600000 0) = (True, PeakDrawdown)
   \<and> fst (forcedRiskControl (exampleTickEnv [btcLong 10 100 100.2] 600000)
            (snd (forcedRiskControl (exampleTickEnv [btcLong 10 100 100.8] 300000)
                    \<lparr>lg_positions = [btcRow None], lg_trades = []\<rparr>)))
       = [(''BTC'', False, NoReason)]"
  by (simp add: stopLoss10 pnlPercentOf_def holdingHoursOf_def rule_defs
      forcedRiskControl_def exampleTickEnv_def exampleSyncEnv_def btcLong_def btcRow_def
      getPositions_def dbPositionsMap_def syncPositionsFromGate_def syncRow_def riskStep_def
      updatePeak_def numOrNull_def strOrNull_def)

subsection \<open>The peak of a position over two ticks\<close>

text \<open>
  C4. The code on two ticks of one open position (long, leverage 10, entry 100): at
  price 101 the PnL is 10 percent and the tick leaves a peak of 10 in the table; at the
  next tick, price 100.4, the sync rewrites the row without the peak, the check reads 0
  and writes 4. Neither tick closes the position.
\<close>

theorem peak_moves_backward_after_sync:
  "forcedRiskControl (exampleTickEnv [btcLong 10 100 101] 300000)
      \<lparr>lg_positions = [btcRow None], lg_trades = []\<rparr>
     = ([(''BTC'', False, NoReason)],
        \<lparr>lg_positions = [(btcRow (Some 10))\<lparr>dp_current_price := 101,
                                               dp_liquidation_price := 1\<rparr>],
         lg_trades = []\<rparr>)
   \<and> forcedRiskControl (exampleTickEnv [btcLong 10 100 100.4] 600000)
        \<lparr>lg_positions = [(btcRow (Some 10))\<lparr>dp_current_price := 101,
                                               dp_liquidation_price := 1\<rparr>],
         lg_trades = []\<rparr>
     = ([(''BTC'', False, NoReason)],
        \<lparr>lg_positions = [(btcRow (Some 4))\<lparr>dp_current_price := 100.4,
                                              dp_liquidation_price := 1\<rparr>],
         lg_trades = []\<rparr>)"
  by (simp add: forcedRiskControl_def exampleTickEnv_def exampleSyncEnv_def btcLong_def
      btcRow_def getPositions_def dbPositionsMap_def syncPositionsFromGate_def syncRow_def
      riskStep_def pnlPercentOf_def updatePeak_def holdingHoursOf_def stopLoss10 rule_defs
      numOrNull_def strOrNull_def)

subsection \<open>Syncing against an exchange that shows no position\<close>

text \<open>
  C6. The code at an exchange answer of no position while the table holds two rows:
  syncPositionsFromGate keeps both rows, syncPositionsTool deletes them on that first
  answer.
\<close>

theorem sync_tool_deletes_on_first_empty_answer:
  "syncPositionsFromGate (exampleSyncEnv 0) [] [btcRow None, ethRow] = [btcRow None, ethRow]
   \<and> syncPositionsTool (exampleSyncEnv 0) [] [btcRow None, ethRow] = []"
  by (simp add: syncPositionsTool_def syncPositionsFromGate_def)

subsection \<open>The account checks\<close>



text \<open>At a peak of 7 and a balance of 5.95 the drawdown as computed lies below 15.\<close>

lemma drawdown_7_595:
  "drawdownFromPeakOf (Some 7) (binary64 5.95) = 4222124650659839 / 281474976710656
   \<and> drawdownFromPeakOf (Some 7) (binary64 5.95) < 15"
  by code_simp






subsection \<open>What the open operation places\<close>

lemma placeOpenOrder_placed:
  assumes "placeOpenOrder env symbol sd leverage quantity = OrderPlaced ord"
  shows "req_symbol ord = symbol \<and> req_side ord = sd \<and> req_leverage ord = Some leverage
         \<and> req_quantity ord = \<bar>quantity\<bar> \<and> oe_orderSizeMin env \<le> req_quantity ord"
  using assms unfolding placeOpenOrder_def Let_def
  by (cases sd) (auto split: if_splits)

lemma placeOpenOrder_finite:
  "placeOpenOrder env symbol sd leverage quantity \<noteq> OrderPlacedNonFinite s sd' l nf"
  unfolding placeOpenOrder_def Let_def by simp

lemma openOrder_cases:
  "openOrder env symbol sd leverage amount = OrderPlacedNonFinite symbol sd leverage NotANumber
   \<or> openOrder env symbol sd leverage amount = OrderPlacedNonFinite symbol sd leverage PlusInfinity
   \<or> openOrder env symbol sd leverage amount = OpenRejected MinNotionalMargin
   \<or> (\<exists>quantity. openOrder env symbol sd leverage amount
                    = placeOpenOrder env symbol sd leverage quantity)"
  unfolding openOrder_def Let_def
  by (simp only: split: option.split if_split) blast

lemma openOrder_placed:
  assumes "openOrder env symbol sd leverage amount = OrderPlaced ord"
  shows "req_symbol ord = symbol \<and> req_side ord = sd \<and> req_leverage ord = Some leverage
         \<and> oe_orderSizeMin env \<le> req_quantity ord"
proof -
  obtain quantity where "placeOpenOrder env symbol sd leverage quantity = OrderPlaced ord"
    using openOrder_cases[of env symbol sd leverage amount] assms by auto
  then show ?thesis using placeOpenOrder_placed by blast
qed

lemma openOrder_nonfinite:
  assumes "openOrder env symbol sd leverage amount = OrderPlacedNonFinite s sd' l nf"
  shows "s = symbol \<and> sd' = sd \<and> l = leverage"
proof -
  consider "openOrder env symbol sd leverage amount
              = OrderPlacedNonFinite symbol sd leverage NotANumber"
    | "openOrder env symbol sd leverage amount
         = OrderPlacedNonFinite symbol sd leverage PlusInfinity"
    | "openOrder env symbol sd leverage amount = OpenRejected MinNotionalMargin"
    | quantity where "openOrder env symbol sd leverage amount
                        = placeOpenOrder env symbol sd leverage quantity"
    using openOrder_cases[of env symbol sd leverage amount] by blast
  then show ?thesis
  proof cases
    case 1
    then show ?thesis using assms by simp
  next
    case 2
    then show ?thesis using assms by simp
  next
    case 3
    then show ?thesis using assms by simp
  next
    case 4
    then have "placeOpenOrder env symbol sd leverage quantity = OrderPlacedNonFinite s sd' l nf"
      using assms by simp
    then show ?thesis using placeOpenOrder_finite by blast
  qed
qed

text \<open>Where the number of contracts computed from the amount lies within the size limits
  and needs no adjustment for Binance, it is the quantity of the order.\<close>

lemma openOrder_contracts:
  assumes "openOrder env symbol sd leverage amount = OrderPlaced ord"
    and "binary64 (oe_quantoMultiplier env (oe_normalizeSymbol env symbol) * oe_lastPrice env) \<noteq> 0"
    and "\<not> (oe_EXCHANGE_binance env
             \<and> binary64 (contractsFor env symbol leverage amount * oe_lastPrice env) < 20)"
    and "0 \<le> oe_orderSizeMin env"
    and "oe_orderSizeMin env \<le> contractsFor env symbol leverage amount"
    and "contractsFor env symbol leverage amount \<le> oe_orderSizeMax env"
  shows "req_quantity ord = contractsFor env symbol leverage amount"
proof -
  have q: "clampedQuantity env symbol leverage amount
             = Some (contractsFor env symbol leverage amount)"
    using assms(2,5,6) by (simp add: clampedQuantity_def Let_def)
  have "openOrder env symbol sd leverage amount
          = placeOpenOrder env symbol sd leverage (contractsFor env symbol leverage amount)"
    using assms(3) unfolding openOrder_def Let_def q by auto
  then have "req_quantity ord = \<bar>contractsFor env symbol leverage amount\<bar>"
    using assms(1) placeOpenOrder_placed by metis
  then show ?thesis using assms(4,5) by simp
qed

lemma open_placed:
  assumes "openPositionTool env intent = OrderPlaced ord"
  shows "openOrder env (oi_symbol intent)
           (if oe_REVERSE_POSITIONS env then oppositeSide (oi_side intent) else oi_side intent)
           (oi_leverage intent) (oi_amountUsdt intent) = OrderPlaced ord
         \<and> 1 \<le> oi_leverage intent \<and> oi_leverage intent \<le> oe_MAX_LEVERAGE env"
  using assms unfolding openPositionTool_def Let_def
  by (simp only: split: if_splits)
     (simp_all only: open_result.distinct not_less not_le de_Morgan_disj simp_thms)

text \<open>The tool arrives at the quantity with an amount above 0 and a leverage of at
  least 1, so that the dividend is above 0 and the quantity is never NaN.\<close>

lemma openOrder_never_nan:
  assumes "0 < amount" "1 \<le> leverage"
  shows "openOrder env symbol sd leverage amount \<noteq> OrderPlacedNonFinite s sd' l NotANumber"
proof -
  have "0 < amount * leverage" using assms by simp
  then have "0 < binary64 (amount * leverage)" by (rule binary64_pos)
  then have "clampedQuantity env symbol leverage amount \<noteq> None"
    unfolding clampedQuantity_def Let_def by (simp split: if_split)
  then obtain quantity where q: "clampedQuantity env symbol leverage amount = Some quantity"
    by (cases "clampedQuantity env symbol leverage amount") auto
  show ?thesis
    unfolding openOrder_def Let_def q using placeOpenOrder_finite
    by (simp only: option.case split: if_split) auto
qed

lemma open_nonfinite_reached:
  assumes "openPositionTool env intent = OrderPlacedNonFinite s sd l nf"
  shows "openOrder env (oi_symbol intent)
           (if oe_REVERSE_POSITIONS env then oppositeSide (oi_side intent) else oi_side intent)
           (oi_leverage intent) (oi_amountUsdt intent) = OrderPlacedNonFinite s sd l nf
         \<and> 0 < oi_amountUsdt intent
         \<and> 1 \<le> oi_leverage intent \<and> oi_leverage intent \<le> oe_MAX_LEVERAGE env"
  using assms unfolding openPositionTool_def Let_def
  by (simp only: split: if_splits)
     (simp_all only: open_result.distinct not_less not_le de_Morgan_disj simp_thms)

text \<open>The leverage guard has also been passed in the runs that place an order with a
  quantity that is not finite, and that order carries the requested leverage.\<close>

lemma open_nonfinite_passed_leverage_guard:
  assumes "openPositionTool env intent = OrderPlacedNonFinite s sd l nf"
  shows "l = oi_leverage intent
         \<and> 1 \<le> oi_leverage intent \<and> oi_leverage intent \<le> oe_MAX_LEVERAGE env"
  using open_nonfinite_reached[OF assms] openOrder_nonfinite by blast

lemma open_leverage_rejected:
  assumes "oi_leverage intent < 1 \<or> oi_leverage intent > oe_MAX_LEVERAGE env"
  shows "\<exists>r. openPositionTool env intent = OpenRejected r"
proof (cases "oi_amountUsdt intent \<le> 0")
  case True
  then show ?thesis unfolding openPositionTool_def Let_def by (simp only: if_True) blast
next
  case False
  then show ?thesis using assms unfolding openPositionTool_def Let_def
    by (simp only: if_False if_True) blast
qed

lemmas open_eval = openPositionTool_def exampleOpenEnv_def drawdownFromPeakOf_def
  currentTotalExposureOf_def openOrder_def clampedQuantity_def contractsFor_def
  placeOpenOrder_def jsFloor_def jsCeil_def binary64_exact

text \<open>With a last price of 0 on an exchange other than Binance the quotient is Infinity,
  and the order is placed for the maximum size.\<close>

lemma open_zero_price_places_max_size:
  "openPositionTool ((exampleOpenEnv False 1000)\<lparr>oe_lastPrice := 0\<rparr>)
       \<lparr>oi_symbol = ''BTC'', oi_side = Long, oi_leverage = 5, oi_amountUsdt = 100\<rparr>
     = OrderPlaced \<lparr>req_symbol = ''BTC'', req_side = Long, req_quantity = 1000000,
                    req_leverage = Some 5, req_reduceOnly = False, req_isReduceOnly = False\<rparr>"
  by (simp add: open_eval)

text \<open>
  C7, as stated, fails. Under the balanced strategy with a maximum leverage of 10 the
  strategy's range starts at 6, and a request with leverage 1 passes every guard and is
  placed.
\<close>

theorem open_leverage_counterexample:
  "openPositionTool (exampleOpenEnv False 1000)
       \<lparr>oi_symbol = ''BTC'', oi_side = Long, oi_leverage = 1, oi_amountUsdt = 100\<rparr>
     = OrderPlaced \<lparr>req_symbol = ''BTC'', req_side = Long, req_quantity = 1,
                    req_leverage = Some 1, req_reduceOnly = False, req_isReduceOnly = False\<rparr>
   \<and> leverageMin (getStrategyParams (oe_MAX_LEVERAGE (exampleOpenEnv False 1000)) Balanced) = 6"
  by (simp add: open_eval balanced10)

text \<open>
  C7, amended. Every order the open operation places carries the requested leverage,
  and that leverage lies between 1 and \<open>MAX_LEVERAGE\<close>; a request whose leverage is
  below 1 or above \<open>MAX_LEVERAGE\<close> is rejected. The strategy's own range is not
  consulted.
\<close>

theorem open_leverage_within_max:
  "(openPositionTool env intent = OrderPlaced ord \<longrightarrow>
      req_leverage ord = Some (oi_leverage intent)
      \<and> 1 \<le> oi_leverage intent \<and> oi_leverage intent \<le> oe_MAX_LEVERAGE env)
   \<and> (oi_leverage intent < 1 \<or> oi_leverage intent > oe_MAX_LEVERAGE env \<longrightarrow>
        (\<exists>r. openPositionTool env intent = OpenRejected r))"
proof (intro conjI impI)
  assume p: "openPositionTool env intent = OrderPlaced ord"
  show "req_leverage ord = Some (oi_leverage intent)"
    using open_placed[OF p] openOrder_placed by blast
  show "1 \<le> oi_leverage intent" using open_placed[OF p] by simp
  show "oi_leverage intent \<le> oe_MAX_LEVERAGE env" using open_placed[OF p] by simp
next
  assume "oi_leverage intent < 1 \<or> oi_leverage intent > oe_MAX_LEVERAGE env"
  then show "\<exists>r. openPositionTool env intent = OpenRejected r"
    by (rule open_leverage_rejected)
qed

theorem open_leverage_within_max_witness:
  "openPositionTool (exampleOpenEnv False 1000)
       \<lparr>oi_symbol = ''BTC'', oi_side = Long, oi_leverage = 10, oi_amountUsdt = 100\<rparr>
     = OrderPlaced \<lparr>req_symbol = ''BTC'', req_side = Long, req_quantity = 10,
                    req_leverage = Some 10, req_reduceOnly = False, req_isReduceOnly = False\<rparr>
   \<and> (1::real) \<le> 10 \<and> (10::real) \<le> oe_MAX_LEVERAGE (exampleOpenEnv False 1000)
   \<and> (11::real) > oe_MAX_LEVERAGE (exampleOpenEnv False 1000)
   \<and> openPositionTool (exampleOpenEnv False 1000)
        \<lparr>oi_symbol = ''BTC'', oi_side = Long, oi_leverage = 11, oi_amountUsdt = 100\<rparr>
       = OpenRejected InvalidLeverage"
  using open_leverage_within_max[of "exampleOpenEnv False 1000"
          "\<lparr>oi_symbol = ''BTC'', oi_side = Long, oi_leverage = 10, oi_amountUsdt = 100\<rparr>"
          "\<lparr>req_symbol = ''BTC'', req_side = Long, req_quantity = 10,
            req_leverage = Some 10, req_reduceOnly = False, req_isReduceOnly = False\<rparr>"]
        open_leverage_within_max[of "exampleOpenEnv False 1000"
          "\<lparr>oi_symbol = ''BTC'', oi_side = Long, oi_leverage = 11, oi_amountUsdt = 100\<rparr>"]
  by (simp add: open_eval)

text \<open>
  C8, as stated, fails. With \<open>REVERSE_POSITIONS\<close> set, a request to go long is placed
  as a short order. And a request with an amount of 50 at leverage 1, at a price of 100
  with a multiplier of 1 and a minimum size of 1 contract, is placed as an order for 1
  contract, whose margin is 100.
\<close>

theorem open_side_counterexample:
  "openPositionTool (exampleOpenEnv True 1000)
       \<lparr>oi_symbol = ''BTC'', oi_side = Long, oi_leverage = 5, oi_amountUsdt = 100\<rparr>
     = OrderPlaced \<lparr>req_symbol = ''BTC'', req_side = Short, req_quantity = 5,
                    req_leverage = Some 5, req_reduceOnly = False, req_isReduceOnly = False\<rparr>
   \<and> openPositionTool (exampleOpenEnv False 1000)
       \<lparr>oi_symbol = ''BTC'', oi_side = Long, oi_leverage = 1, oi_amountUsdt = 50\<rparr>
     = OrderPlaced \<lparr>req_symbol = ''BTC'', req_side = Long, req_quantity = 1,
                    req_leverage = Some 1, req_reduceOnly = False, req_isReduceOnly = False\<rparr>
   \<and> contractsFor (exampleOpenEnv False 1000) ''BTC'' 1 50 = 0
   \<and> 1 * oe_quantoMultiplier (exampleOpenEnv False 1000) ''BTC_USDT''
       * oe_lastPrice (exampleOpenEnv False 1000) / 1 = 100"
  by (simp add: open_eval)

text \<open>
  C8, amended. The order with which the open operation opens a position carries the
  symbol and the leverage of the intent; its side is the intent's side unless
  \<open>REVERSE_POSITIONS\<close> is set, and the opposite side when it is. Its quantity is a number
  of contracts, at least the contract's minimum order size; where the number of contracts
  computed from the amount, floor(amount * leverage / (multiplier * price)) in double
  precision with a divisor other than 0, lies within the contract's size limits and needs
  no adjustment to the minimum notional value of Binance, the order is for that number.
  The quantity of an opening order is never NaN; an order placed with the quantity
  Infinity carries the intent's symbol and leverage and the same side.
\<close>

theorem open_order_follows_intent:
  "(openPositionTool env intent = OrderPlaced ord \<longrightarrow>
      req_symbol ord = oi_symbol intent
      \<and> req_leverage ord = Some (oi_leverage intent)
      \<and> req_side ord = (if oe_REVERSE_POSITIONS env then oppositeSide (oi_side intent)
                         else oi_side intent)
      \<and> oe_orderSizeMin env \<le> req_quantity ord
      \<and> (binary64 (oe_quantoMultiplier env (oe_normalizeSymbol env (oi_symbol intent))
                    * oe_lastPrice env) \<noteq> 0
         \<and> \<not> (oe_EXCHANGE_binance env
                \<and> binary64 (contractsFor env (oi_symbol intent) (oi_leverage intent)
                               (oi_amountUsdt intent) * oe_lastPrice env) < 20)
         \<and> 0 \<le> oe_orderSizeMin env
         \<and> oe_orderSizeMin env
             \<le> contractsFor env (oi_symbol intent) (oi_leverage intent) (oi_amountUsdt intent)
         \<and> contractsFor env (oi_symbol intent) (oi_leverage intent) (oi_amountUsdt intent)
             \<le> oe_orderSizeMax env
         \<longrightarrow> req_quantity ord
               = contractsFor env (oi_symbol intent) (oi_leverage intent)
                   (oi_amountUsdt intent)))
   \<and> (openPositionTool env intent = OrderPlacedNonFinite s sd l nf \<longrightarrow>
        s = oi_symbol intent \<and> l = oi_leverage intent
        \<and> sd = (if oe_REVERSE_POSITIONS env then oppositeSide (oi_side intent)
                 else oi_side intent)
        \<and> nf = PlusInfinity)"
proof (intro conjI impI)
  assume p: "openPositionTool env intent = OrderPlaced ord"
  note o = open_placed[OF p, THEN conjunct1]
  show "req_symbol ord = oi_symbol intent" using openOrder_placed[OF o] by simp
  show "req_leverage ord = Some (oi_leverage intent)" using openOrder_placed[OF o] by simp
  show "req_side ord = (if oe_REVERSE_POSITIONS env then oppositeSide (oi_side intent)
                         else oi_side intent)"
    using openOrder_placed[OF o] by simp
  show "oe_orderSizeMin env \<le> req_quantity ord" using openOrder_placed[OF o] by simp
  assume h: "binary64 (oe_quantoMultiplier env (oe_normalizeSymbol env (oi_symbol intent))
                    * oe_lastPrice env) \<noteq> 0
         \<and> \<not> (oe_EXCHANGE_binance env
                \<and> binary64 (contractsFor env (oi_symbol intent) (oi_leverage intent)
                               (oi_amountUsdt intent) * oe_lastPrice env) < 20)
         \<and> 0 \<le> oe_orderSizeMin env
         \<and> oe_orderSizeMin env
             \<le> contractsFor env (oi_symbol intent) (oi_leverage intent) (oi_amountUsdt intent)
         \<and> contractsFor env (oi_symbol intent) (oi_leverage intent) (oi_amountUsdt intent)
             \<le> oe_orderSizeMax env"
  show "req_quantity ord
          = contractsFor env (oi_symbol intent) (oi_leverage intent) (oi_amountUsdt intent)"
    using h by (intro openOrder_contracts[OF o]) simp_all
next
  assume p: "openPositionTool env intent = OrderPlacedNonFinite s sd l nf"
  note o = open_nonfinite_reached[OF p, THEN conjunct1]
  show "s = oi_symbol intent" using openOrder_nonfinite[OF o] by simp
  show "l = oi_leverage intent" using openOrder_nonfinite[OF o] by simp
  show "sd = (if oe_REVERSE_POSITIONS env then oppositeSide (oi_side intent)
                 else oi_side intent)"
    using openOrder_nonfinite[OF o] by simp
  have "nf \<noteq> NotANumber"
    using open_nonfinite_reached[OF p] openOrder_never_nan by blast
  then show "nf = PlusInfinity" by (cases nf) simp_all
qed

text \<open>The amended statement at a short request of 100 at leverage 7 (7 contracts at a
  price of 100), and at a long request on Binance with a last price of 0, which is
  placed with the quantity Infinity.\<close>

theorem open_order_follows_intent_witness:
  "openPositionTool (exampleOpenEnv False 1000)
       \<lparr>oi_symbol = ''BTC'', oi_side = Short, oi_leverage = 7, oi_amountUsdt = 100\<rparr>
     = OrderPlaced \<lparr>req_symbol = ''BTC'', req_side = Short, req_quantity = 7,
                    req_leverage = Some 7, req_reduceOnly = False, req_isReduceOnly = False\<rparr>
   \<and> \<not> oe_REVERSE_POSITIONS (exampleOpenEnv False 1000)
   \<and> \<not> oe_EXCHANGE_binance (exampleOpenEnv False 1000)
   \<and> contractsFor (exampleOpenEnv False 1000) ''BTC'' 7 100 = 7
   \<and> openPositionTool zeroPriceBinanceEnv
       \<lparr>oi_symbol = ''BTC'', oi_side = Long, oi_leverage = 5, oi_amountUsdt = 100\<rparr>
     = OrderPlacedNonFinite ''BTC'' Long 5 PlusInfinity"
  using open_order_follows_intent[of "exampleOpenEnv False 1000"
          "\<lparr>oi_symbol = ''BTC'', oi_side = Short, oi_leverage = 7, oi_amountUsdt = 100\<rparr>"
          "\<lparr>req_symbol = ''BTC'', req_side = Short, req_quantity = 7,
            req_leverage = Some 7, req_reduceOnly = False, req_isReduceOnly = False\<rparr>"]
        open_order_follows_intent[of zeroPriceBinanceEnv
          "\<lparr>oi_symbol = ''BTC'', oi_side = Long, oi_leverage = 5, oi_amountUsdt = 100\<rparr>"
          _ "''BTC''" Long 5 PlusInfinity]
  by (simp add: open_eval zeroPriceBinanceEnv_def)

subsection \<open>The close quantity\<close>

lemma closeSizeOf_zero:
  assumes "0 < q" "0 < p" "binary64 (q * p) < 100"
  shows "closeSizeOf q p = 0"
  using closeSize_zero[OF assms] by (simp add: closeSizeOf_def jsFloor_def)

lemma closeSizeOf_7: "p = (100 - 1 / 2 ^ 47) / 7 \<Longrightarrow> closeSizeOf 7 p = 1"
proof -
  assume p: "p = (100 - 1 / 2 ^ 47) / 7"
  have a: "7 * p = 100 - 1 / 2 ^ 47" unfolding p by simp
  have b: "binary64 (100 - 1 / 2 ^ 47) = 100"
    by (subst binary64_eval[where k = 6]) (simp_all add: roundTiesToEven_def powr_minus)
  show ?thesis unfolding closeSizeOf_def a b by (simp add: binary64_one jsFloor_def)
qed

lemma closeSizeOf_125: "p = 5404319552844595 / 2 ^ 51 \<Longrightarrow> closeSizeOf 125 p = 3"
proof -
  assume p: "p = 5404319552844595 / 2 ^ 51"
  have b: "binary64 (125 * (5404319552844595 / 2 ^ 51)) = 300"
    by (subst binary64_eval[where k = 8]) (simp_all add: roundTiesToEven_def powr_minus)
  show ?thesis unfolding closeSizeOf_def p b by (simp add: binary64_numeral jsFloor_def)
qed

text \<open>The close quantity for 375 contracts at the percentage 18.4 of the source, whose
  double lies below 18.4: the product as a double lies below 6900, and the quantity is 68.\<close>

lemma closeSizeOf_375: "closeSizeOf 375 (binary64 18.4) = 68"
  by code_simp

lemma closePositionTool_places:
  assumes positions: "ce_positions env = Some allPositions"
    and found: "find (\<lambda>p. pos_symbol p = symbol) allPositions = Some gatePosition"
    and live: "pos_quantity gatePosition \<noteq> 0"
    and pct: "0 < percentage" "percentage \<le> 100"
    and prices: "closePrices env gatePosition \<noteq> None"
    and mult: "ce_quantoMultiplier env \<noteq> None"
    and answers: "\<And>req. ce_placeOrder env req \<noteq> None"
  shows "\<exists>row. closePositionTool env symbol percentage =
           (if ce_totalBalance env \<noteq> None \<and> ce_insertAnswers env
            then CloseWritten
                   \<lparr>req_symbol = symbol, req_side = oppositeSide (pos_side gatePosition),
                    req_quantity = closeSizeOf (pos_quantity gatePosition) percentage,
                    req_leverage = None, req_reduceOnly = True, req_isReduceOnly = False\<rparr> row
            else CloseFailedAfterOrder
                   \<lparr>req_symbol = symbol, req_side = oppositeSide (pos_side gatePosition),
                    req_quantity = closeSizeOf (pos_quantity gatePosition) percentage,
                    req_leverage = None, req_reduceOnly = True, req_isReduceOnly = False\<rparr>)"
proof -
  let ?req = "\<lparr>req_symbol = symbol, req_side = oppositeSide (pos_side gatePosition),
               req_quantity = closeSizeOf (pos_quantity gatePosition) percentage,
               req_leverage = None, req_reduceOnly = True, req_isReduceOnly = False\<rparr>"
  obtain order where o: "ce_placeOrder env ?req = Some order"
    using answers[of ?req] by (cases "ce_placeOrder env ?req") auto
  obtain entryPrice currentPrice where pr: "closePrices env gatePosition = Some (entryPrice, currentPrice)"
    using prices by (cases "closePrices env gatePosition") auto
  obtain m where m: "ce_quantoMultiplier env = Some m"
    using mult by (cases "ce_quantoMultiplier env") auto
  show ?thesis
    using positions found live pct o pr m
    by (simp add: closePositionTool_def Let_def)
qed

text \<open>
  C10, as stated, fails on the rounding of the product. For a position of 7 contracts
  and the percentage (100 - 2^-47) / 7, a double a little below 100 / 7, the product is
  below 100 and the floor of its hundredth is 0; the product as a double is 100, and the
  order is placed for 1 contract. For a position of 125 contracts and the percentage
  5404319552844595 / 2^51, the double next to 2.4, the floor of the exact quotient is 2;
  the product as a double is 300, and the order is placed for 3 contracts.
\<close>

theorem close_quantity_counterexample:
  "closeOrderOf (closePositionTool (exampleCloseEnv 7) ''BTC'' ((100 - 1 / 2 ^ 47) / 7))
     = Some \<lparr>req_symbol = ''BTC'', req_side = Short, req_quantity = 1,
             req_leverage = None, req_reduceOnly = True, req_isReduceOnly = False\<rparr>
   \<and> (1::real) \<le> (100 - 1 / 2 ^ 47) / 7 \<and> (100 - 1 / 2 ^ 47) / 7 \<le> (100::real)
   \<and> 7 * ((100 - 1 / 2 ^ 47) / 7) < (100::real)
   \<and> \<lfloor>7 * ((100 - 1 / 2 ^ 47) / 7) / (100::real)\<rfloor> = 0
   \<and> closeOrderOf (closePositionTool (exampleCloseEnv 125) ''BTC'' (5404319552844595 / 2 ^ 51))
     = Some \<lparr>req_symbol = ''BTC'', req_side = Short, req_quantity = 3,
             req_leverage = None, req_reduceOnly = True, req_isReduceOnly = False\<rparr>
   \<and> \<lfloor>125 * (5404319552844595 / 2 ^ 51) / (100::real)\<rfloor> = 2"
  by (simp add: closePositionTool_def exampleCloseEnv_def closePrices_def closeOrderOf_def
      closeSizeOf_7 closeSizeOf_125)

text \<open>
  C10, amended. For a live position (quantity q above 0) and a percentage p from 1 to
  100, when the calls before the order answer (the position list, the ticker where a
  price of the position is 0, the multiplier and \<open>placeOrder\<close>), closePositionTool
  places a reduce-only order on the opposite side for floor(d) contracts, where d is the
  double (q * p) / 100, product and quotient each rounded to double precision; the trade
  row is written when the account query and the INSERT answer, and the tool fails after
  the order otherwise. Whenever the product as a double is below 100, which it is
  whenever the exact product is below 100 - 2^-47, that order is for 0 contracts, and it
  is placed all the same.
\<close>

theorem close_quantity_floor_of_double:
  assumes positions: "ce_positions env = Some allPositions"
    and found: "find (\<lambda>p. pos_symbol p = symbol) allPositions = Some gatePosition"
    and live: "0 < pos_quantity gatePosition"
    and pct: "1 \<le> percentage" "percentage \<le> 100"
    and prices: "closePrices env gatePosition \<noteq> None"
    and mult: "ce_quantoMultiplier env \<noteq> None"
    and answers: "\<And>req. ce_placeOrder env req \<noteq> None"
  shows "(\<exists>row. closePositionTool env symbol percentage =
            (if ce_totalBalance env \<noteq> None \<and> ce_insertAnswers env
             then CloseWritten
                    \<lparr>req_symbol = symbol, req_side = oppositeSide (pos_side gatePosition),
                     req_quantity =
                       real_of_int \<lfloor>binary64 (binary64 (pos_quantity gatePosition * percentage)
                                               / 100)\<rfloor>,
                     req_leverage = None, req_reduceOnly = True, req_isReduceOnly = False\<rparr> row
             else CloseFailedAfterOrder
                    \<lparr>req_symbol = symbol, req_side = oppositeSide (pos_side gatePosition),
                     req_quantity =
                       real_of_int \<lfloor>binary64 (binary64 (pos_quantity gatePosition * percentage)
                                               / 100)\<rfloor>,
                     req_leverage = None, req_reduceOnly = True, req_isReduceOnly = False\<rparr>))
       \<and> (binary64 (pos_quantity gatePosition * percentage) < 100
            \<longrightarrow> \<lfloor>binary64 (binary64 (pos_quantity gatePosition * percentage) / 100)\<rfloor> = 0)
       \<and> (pos_quantity gatePosition * percentage < 100 - 1 / 2 ^ 47
            \<longrightarrow> binary64 (pos_quantity gatePosition * percentage) < 100)"
proof (intro conjI impI)
  show "\<exists>row. closePositionTool env symbol percentage =
            (if ce_totalBalance env \<noteq> None \<and> ce_insertAnswers env
             then CloseWritten
                    \<lparr>req_symbol = symbol, req_side = oppositeSide (pos_side gatePosition),
                     req_quantity =
                       real_of_int \<lfloor>binary64 (binary64 (pos_quantity gatePosition * percentage)
                                               / 100)\<rfloor>,
                     req_leverage = None, req_reduceOnly = True, req_isReduceOnly = False\<rparr> row
             else CloseFailedAfterOrder
                    \<lparr>req_symbol = symbol, req_side = oppositeSide (pos_side gatePosition),
                     req_quantity =
                       real_of_int \<lfloor>binary64 (binary64 (pos_quantity gatePosition * percentage)
                                               / 100)\<rfloor>,
                     req_leverage = None, req_reduceOnly = True, req_isReduceOnly = False\<rparr>)"
    using closePositionTool_places[OF positions found _ _ pct(2) prices mult answers] live pct(1)
    by (auto simp: closeSizeOf_def jsFloor_def)
next
  assume "binary64 (pos_quantity gatePosition * percentage) < 100"
  then show "\<lfloor>binary64 (binary64 (pos_quantity gatePosition * percentage) / 100)\<rfloor> = 0"
    using live pct(1) by (intro closeSize_zero) simp_all
next
  assume a: "pos_quantity gatePosition * percentage < 100 - 1 / 2 ^ 47"
  have "0 < pos_quantity gatePosition * percentage" using live pct(1) by simp
  then have "binary64 (pos_quantity gatePosition * percentage) \<le> 100 - 1 / 2 ^ 46"
    using a by (rule binary64_below_100)
  then show "binary64 (pos_quantity gatePosition * percentage) < 100" by simp
qed

text \<open>The amended statement at a 50 percent close of one contract: the order is for 0
  contracts, with the row written when every call answers, and with the failure after the
  order when the account query throws.\<close>

theorem close_quantity_floor_of_double_witness:
  "(\<exists>row. closePositionTool (exampleCloseEnv 1) ''BTC'' 50 =
           CloseWritten \<lparr>req_symbol = ''BTC'', req_side = Short, req_quantity = 0,
                          req_leverage = None, req_reduceOnly = True, req_isReduceOnly = False\<rparr>
             row)
   \<and> closePositionTool ((exampleCloseEnv 1)\<lparr>ce_totalBalance := None\<rparr>) ''BTC'' 50 =
       CloseFailedAfterOrder \<lparr>req_symbol = ''BTC'', req_side = Short, req_quantity = 0,
                               req_leverage = None, req_reduceOnly = True,
                               req_isReduceOnly = False\<rparr>
   \<and> binary64 (1 * 50) < 100
   \<and> (1::real) * 50 < 100 - 1 / 2 ^ 47"
  using close_quantity_floor_of_double[of "exampleCloseEnv 1"
          "[\<lparr>pos_symbol = ''BTC'', pos_exchangeSymbol = ''BTC_USDT'', pos_side = Long,
             pos_quantity = 1, pos_entryPrice = 100, pos_currentPrice = 110,
             pos_liquidationPrice = 91, pos_unrealizedPnl = 10, pos_leverage = 10\<rparr>]"
          "''BTC''"
          "\<lparr>pos_symbol = ''BTC'', pos_exchangeSymbol = ''BTC_USDT'', pos_side = Long,
            pos_quantity = 1, pos_entryPrice = 100, pos_currentPrice = 110,
            pos_liquidationPrice = 91, pos_unrealizedPnl = 10, pos_leverage = 10\<rparr>" 50]
        close_quantity_floor_of_double[of "(exampleCloseEnv 1)\<lparr>ce_totalBalance := None\<rparr>"
          "[\<lparr>pos_symbol = ''BTC'', pos_exchangeSymbol = ''BTC_USDT'', pos_side = Long,
             pos_quantity = 1, pos_entryPrice = 100, pos_currentPrice = 110,
             pos_liquidationPrice = 91, pos_unrealizedPnl = 10, pos_leverage = 10\<rparr>]"
          "''BTC''"
          "\<lparr>pos_symbol = ''BTC'', pos_exchangeSymbol = ''BTC_USDT'', pos_side = Long,
            pos_quantity = 1, pos_entryPrice = 100, pos_currentPrice = 110,
            pos_liquidationPrice = 91, pos_unrealizedPnl = 10, pos_leverage = 10\<rparr>" 50]
  by (simp add: exampleCloseEnv_def closePrices_def binary64_exact)

subsection \<open>The historical PnL fixer\<close>

lemma insort_key_map_pres:
  "k (h x) = k x \<Longrightarrow> \<forall>y\<in>set ys. k (h y) = k y \<Longrightarrow>
   insort_key k (h x) (map h ys) = map h (insort_key k x ys)"
  by (induction ys) auto

lemma sort_key_map_pres:
  "\<forall>y\<in>set xs. k (h y) = k y \<Longrightarrow> sort_key k (map h xs) = map h (sort_key k xs)"
  by (induction xs) (auto simp: insort_key_map_pres)

lemma filter_map_pres:
  "\<forall>y\<in>set xs. P (h y) = P y \<Longrightarrow> filter P (map h xs) = map h (filter P xs)"
  by (induction xs) auto

lemma selectCloseTrades_map:
  assumes "\<forall>r\<in>set T. keepsKeys h r"
  shows "selectCloseTrades (map h T) = map h (selectCloseTrades T)"
proof -
  have f: "filter (\<lambda>r. t_type r = CloseTrade) (map h T)
             = map h (filter (\<lambda>r. t_type r = CloseTrade) T)"
    using assms by (intro filter_map_pres) (simp add: keepsKeys_def)
  have s: "sort_key t_timestamp (map h (filter (\<lambda>r. t_type r = CloseTrade) T))
             = map h (sort_key t_timestamp (filter (\<lambda>r. t_type r = CloseTrade) T))"
    using assms by (intro sort_key_map_pres) (simp add: keepsKeys_def)
  show ?thesis
    by (simp add: selectCloseTrades_def f s rev_map take_map)
qed

lemma selectOpenTrade_map:
  assumes "\<forall>r\<in>set T. keepsKeys h r"
  shows "selectOpenTrade (map h T) s ts = map_option h (selectOpenTrade T s ts)"
proof -
  let ?P = "\<lambda>r. t_symbol r = s \<and> t_type r = OpenTrade \<and> t_timestamp r < ts"
  have f: "filter ?P (map h T) = map h (filter ?P T)"
    using assms by (intro filter_map_pres) (simp add: keepsKeys_def)
  have s: "sort_key t_timestamp (map h (filter ?P T))
             = map h (sort_key t_timestamp (filter ?P T))"
    using assms by (intro sort_key_map_pres) (simp add: keepsKeys_def)
  show ?thesis
    by (simp add: selectOpenTrade_def f s rev_map split: list.splits)
qed

lemma selectOpenTrade_in:
  assumes a: "selectOpenTrade T s ts = Some ot"
  shows "ot \<in> set T"
proof -
  define L where "L = rev (sort_key t_timestamp
      (filter (\<lambda>r. t_symbol r = s \<and> t_type r = OpenTrade \<and> t_timestamp r < ts) T))"
  have "selectOpenTrade T s ts = (case L of [] \<Rightarrow> None | x # _ \<Rightarrow> Some x)"
    by (simp add: selectOpenTrade_def L_def)
  with a have "ot \<in> set L" by (cases L) auto
  then show ?thesis by (auto simp: L_def)
qed

lemma fixedValues_map:
  assumes "\<forall>r\<in>set T. keepsKeys h r"
  shows "fixedValues m c (map h T) = fixedValues m c T"
proof (cases "selectOpenTrade T (t_symbol c) (t_timestamp c)")
  case None
  then show ?thesis by (simp add: fixedValues_def selectOpenTrade_map[OF assms])
next
  case (Some ot)
  then have "ot \<in> set T" by (rule selectOpenTrade_in)
  then have "t_price (h ot) = t_price ot" using assms by (simp add: keepsKeys_def)
  then show ?thesis using Some by (simp add: fixedValues_def selectOpenTrade_map[OF assms])
qed

lemma keepsKeys_fixedRow: "keepsKeys (fixedRow m T) r"
  by (simp add: keepsKeys_def fixedRow_def split: option.splits)

text \<open>A row the loop body has dealt with is within tolerance: it is left alone after that.\<close>

lemma fixedValues_fixedRow: "fixedValues m (fixedRow m T r) T = None"
proof (cases "fixedValues m r T")
  case None
  then show ?thesis by (simp add: fixedRow_def)
next
  case (Some pf)
  obtain p f where pf: "pf = (p, f)" by (cases pf)
  obtain ot where ot: "selectOpenTrade T (t_symbol r) (t_timestamp r) = Some ot"
    using Some
    by (cases "selectOpenTrade T (t_symbol r) (t_timestamp r)") (simp_all add: fixedValues_def)
  have vals:
    "p = (if t_side r = Long then t_price r - t_price ot else t_price ot - t_price r)
           * t_quantity r * m (t_symbol r @ ''_USDT'')
         - (t_price ot * t_quantity r * m (t_symbol r @ ''_USDT'') * 0.0005
            + t_price r * t_quantity r * m (t_symbol r @ ''_USDT'') * 0.0005)"
    "f = t_price ot * t_quantity r * m (t_symbol r @ ''_USDT'') * 0.0005
         + t_price r * t_quantity r * m (t_symbol r @ ''_USDT'') * 0.0005"
    using Some unfolding pf fixedValues_def Let_def ot option.case
    by (simp_all only: if_split_eq1 option.inject prod.inject option.distinct simp_thms)
  have row: "fixedRow m T r = r\<lparr>t_pnl := Some p, t_fee := f\<rparr>"
    by (simp add: fixedRow_def Some pf)
  show ?thesis
    unfolding row fixedValues_def Let_def
    by (simp add: ot vals)
qed

lemma fixedRow_idem: "fixedRow m T (fixedRow m T r) = fixedRow m T r"
  using fixedValues_fixedRow[of m T r] by (simp add: fixedRow_def[of m T "fixedRow m T r"])

lemma distinct_ids_eq:
  "distinct (map t_id T) \<Longrightarrow> r \<in> set T \<Longrightarrow> c \<in> set T \<Longrightarrow> t_id r = t_id c \<Longrightarrow> r = c"
  by (meson distinct_map inj_onD)

text \<open>
  The loop over the query result, started on a table whose rows may already have been
  rewritten by \<open>h\<close>: every row of the result is replaced by its fixed row, the others stay
  as \<open>h\<close> left them. Induction on the query result, \<open>h\<close> generalised.
\<close>

lemma fold_fixCloseTrade:
  assumes d: "distinct (map t_id T)"
  shows "set cs \<subseteq> set T \<Longrightarrow> distinct cs \<Longrightarrow> \<forall>r\<in>set T. keepsKeys h r
         \<Longrightarrow> \<forall>r\<in>set cs. h r = r
         \<Longrightarrow> fold (fixCloseTrade m) cs (map h T)
               = map (\<lambda>r. if r \<in> set cs then fixedRow m T r else h r) T"
proof (induction cs arbitrary: h)
  case Nil
  then show ?case by simp
next
  case (Cons c cs)
  let ?h' = "\<lambda>r. if r = c then fixedRow m T c else h r"
  have cT: "c \<in> set T" and hc: "h c = c" and cnot: "c \<notin> set cs"
    using Cons.prems by auto
  have fv: "fixedValues m c (map h T) = fixedValues m c T"
    using Cons.prems(3) by (rule fixedValues_map)
  have step: "fixCloseTrade m c (map h T) = map ?h' T"
  proof (cases "fixedValues m c T")
    case None
    then have "fixedRow m T c = c" by (simp add: fixedRow_def)
    then have "map ?h' T = map h T" using hc by (intro map_cong) auto
    then show ?thesis using None fv by (simp add: fixCloseTrade_def)
  next
    case (Some pf)
    obtain p f where pf: "pf = (p, f)" by (cases pf)
    have "map (updateTrade (t_id c) p f) (map h T) = map ?h' T"
      unfolding map_map
    proof (intro map_cong refl)
      fix r assume rT: "r \<in> set T"
      have kid: "t_id (h r) = t_id r" using Cons.prems(3) rT by (simp add: keepsKeys_def)
      show "(updateTrade (t_id c) p f \<circ> h) r = ?h' r"
      proof (cases "r = c")
        case True
        then show ?thesis using hc Some pf by (simp add: updateTrade_def fixedRow_def)
      next
        case False
        then have "t_id r \<noteq> t_id c" using distinct_ids_eq[OF d rT cT] by blast
        then show ?thesis using False kid by (simp add: updateTrade_def)
      qed
    qed
    then show ?thesis using Some pf fv by (simp add: fixCloseTrade_def)
  qed
  have k': "\<forall>r\<in>set T. keepsKeys ?h' r"
    using Cons.prems(3) keepsKeys_fixedRow[of m T c] by (auto simp: keepsKeys_def)
  have fix': "\<forall>r\<in>set cs. ?h' r = r"
    using Cons.prems(4) cnot by auto
  have "fold (fixCloseTrade m) (c # cs) (map h T) = fold (fixCloseTrade m) cs (map ?h' T)"
    using step by simp
  also have "\<dots> = map (\<lambda>r. if r \<in> set cs then fixedRow m T r else ?h' r) T"
    using Cons.prems by (intro Cons.IH[OF _ _ k' fix']) auto
  also have "\<dots> = map (\<lambda>r. if r \<in> set (c # cs) then fixedRow m T r else h r) T"
    by (intro map_cong) auto
  finally show ?case .
qed

lemma selectCloseTrades_subset: "set (selectCloseTrades T) \<subseteq> set T"
  by (auto simp: selectCloseTrades_def dest: in_set_takeD)

lemma selectCloseTrades_distinct: "distinct T \<Longrightarrow> distinct (selectCloseTrades T)"
  by (simp add: selectCloseTrades_def distinct_take)

lemma fixHistoricalPnlRecords_map:
  assumes d: "distinct (map t_id T)"
  shows "fixHistoricalPnlRecords m T
           = map (\<lambda>r. if r \<in> set (selectCloseTrades T) then fixedRow m T r else r) T"
proof -
  have "distinct T" using d by (rule distinct_map[THEN iffD1, THEN conjunct1])
  then have dc: "distinct (selectCloseTrades T)" by (rule selectCloseTrades_distinct)
  have "fold (fixCloseTrade m) (selectCloseTrades T) (map (\<lambda>r. r) T)
          = map (\<lambda>r. if r \<in> set (selectCloseTrades T) then fixedRow m T r else (\<lambda>r. r) r) T"
    using selectCloseTrades_subset dc
    by (intro fold_fixCloseTrade[OF d]) (auto simp: keepsKeys_def)
  then show ?thesis by (simp add: fixHistoricalPnlRecords_def)
qed

text \<open>
  C9. On a trades table whose ids are distinct (the id is the table's key), running
  fixHistoricalPnlRecords on its own result changes nothing: the pnl and fee of every row
  after two runs are those after one run.
\<close>

theorem fixHistoricalPnlRecords_idempotent:
  assumes d: "distinct (map t_id T)"
  shows "fixHistoricalPnlRecords m (fixHistoricalPnlRecords m T) = fixHistoricalPnlRecords m T"
proof -
  let ?F = "\<lambda>r. if r \<in> set (selectCloseTrades T) then fixedRow m T r else r"
  have T1: "fixHistoricalPnlRecords m T = map ?F T" using d by (rule fixHistoricalPnlRecords_map)
  have kF: "\<forall>r\<in>set T. keepsKeys ?F r"
    using keepsKeys_fixedRow[of m T] by (auto simp: keepsKeys_def)
  have idF: "map (t_id \<circ> ?F) T = map t_id T"
    using kF by (intro map_cong) (auto simp: keepsKeys_def)
  have d1: "distinct (map t_id (map ?F T))" unfolding map_map idF by (rule d)
  have sel1: "selectCloseTrades (map ?F T) = map ?F (selectCloseTrades T)"
    using kF by (rule selectCloseTrades_map)
  have fr1: "\<And>r. fixedRow m (map ?F T) r = fixedRow m T r"
    using fixedValues_map[OF kF] by (simp add: fixedRow_def)
  have "fixHistoricalPnlRecords m (map ?F T)
          = map (\<lambda>r'. if r' \<in> set (selectCloseTrades (map ?F T))
                       then fixedRow m (map ?F T) r' else r') (map ?F T)"
    using d1 by (rule fixHistoricalPnlRecords_map)
  also have "\<dots> = map ?F T"
    unfolding map_map
  proof (intro map_cong refl)
    fix r assume rT: "r \<in> set T"
    show "((\<lambda>r'. if r' \<in> set (selectCloseTrades (map ?F T))
                  then fixedRow m (map ?F T) r' else r') \<circ> ?F) r = ?F r"
    proof (cases "r \<in> set (selectCloseTrades T)")
      case True
      then show ?thesis by (simp add: fr1 fixedRow_idem)
    next
      case False
      have "r \<notin> set (selectCloseTrades (map ?F T))"
      proof
        assume "r \<in> set (selectCloseTrades (map ?F T))"
        then obtain r' where r': "r' \<in> set (selectCloseTrades T)" and eq: "r = ?F r'"
          unfolding sel1 by auto
        have r'T: "r' \<in> set T" using r' selectCloseTrades_subset by blast
        have "t_id r = t_id r'" using eq kF r'T by (auto simp: keepsKeys_def)
        then have "r = r'" using distinct_ids_eq[OF d rT r'T] by simp
        then show False using r' False by simp
      qed
      then show ?thesis using False by simp
    qed
  qed
  finally show ?thesis unfolding T1 .
qed

lemma exampleTrades_first_run:
  "map t_pnl (fixHistoricalPnlRecords (\<lambda>c. 1) exampleTrades) = [None, Some 98.95]
   \<and> map t_fee (fixHistoricalPnlRecords (\<lambda>c. 1) exampleTrades) = [0.5, 1.05]"
  by (simp add: fixHistoricalPnlRecords_def selectCloseTrades_def exampleTrades_def
      fixCloseTrade_def fixedValues_def selectOpenTrade_def updateTrade_def less_char_def)

theorem fixHistoricalPnlRecords_idempotent_witness:
  "distinct (map t_id exampleTrades)
   \<and> map t_pnl (fixHistoricalPnlRecords (\<lambda>c. 1) exampleTrades) = [None, Some 98.95]
   \<and> fixHistoricalPnlRecords (\<lambda>c. 1) (fixHistoricalPnlRecords (\<lambda>c. 1) exampleTrades)
       = fixHistoricalPnlRecords (\<lambda>c. 1) exampleTrades"
  using fixHistoricalPnlRecords_idempotent[of exampleTrades "\<lambda>c. 1"] exampleTrades_first_run
  by (simp add: exampleTrades_def)

end
